theory Spec2Isabelle
  imports Main "HOL-Library.Product_Lexorder"
begin

section \<open>Dates, times and instants\<close>

text \<open>
  Python's \<^verbatim>\<open>datetime.date\<close> and \<^verbatim>\<open>datetime.time\<close> values are compared field
  by field, most significant field first. They are modelled as tuples under the
  lexicographic order: a date is (year, month, day), a time of day is
  (hour, minute, second, microsecond). A \<^verbatim>\<open>datetime\<close> used as a point in time
  (\<^verbatim>\<open>created_at\<close>, \<^verbatim>\<open>timezone.now()\<close>) is a number of microseconds.
\<close>

type_synonym date = "nat \<times> nat \<times> nat"
type_synonym time_of_day = "nat \<times> nat \<times> nat \<times> nat"
type_synonym instant = int

definition time :: "nat \<Rightarrow> nat \<Rightarrow> time_of_day" where
  \<comment> \<open>\<^verbatim>\<open>time(h, m)\<close>: seconds and microseconds default to 0\<close>
  "time h m = (h, m, 0, 0)"

definition timedelta_minutes :: "int \<Rightarrow> int" where
  \<comment> \<open>\<^verbatim>\<open>datetime.timedelta(minutes=n)\<close> in microseconds\<close>
  "timedelta_minutes n = n * 60 * 1000000"

text \<open>
  One reading of the clock serves a whole request: \<^verbatim>\<open>date.today()\<close>,
  \<^verbatim>\<open>datetime.now().time()\<close> and \<^verbatim>\<open>timezone.now()\<close>.
\<close>

record clock =
  today :: date
  now_time :: time_of_day
  now_instant :: instant

section \<open>Errors\<close>

text \<open>
  Every exception and every error response of the source is a value of \<open>error\<close>.
  The validation errors are named by the rule they enforce; the message of the source
  is given with each.
\<close>

datatype error =
    InvalidTimeWindow        \<comment> \<open>"Appointments can only be booked between 08:00 and 20:00." /
                                 "Appointment time must be between 8:00 and 20:00."\<close>
  | SlotAlreadyBooked        \<comment> \<open>"This time slot has already been booked."\<close>
  | UniqueTogether           \<comment> \<open>"The fields scheduler, date, time must make a unique set."\<close>
  | MissingBookerIdentity    \<comment> \<open>"At least one of 'booker' or 'booker_name' must be provided."\<close>
  | SchedulerNotInRoster     \<comment> \<open>"You can only book appointments with schedulers you have added."\<close>
  | PastDateOrTime           \<comment> \<open>"You cannot book an appointment in the past or at the current time." /
                                 "You cannot book an appointment on a past date." /
                                 "The selected date is in the past. Only future dates are allowed."\<close>
  | ActiveAppointmentExists  \<comment> \<open>"You already have an active appointment and cannot reserve a new one."\<close>
  | SchedulerNotFound        \<comment> \<open>"Scheduler not found or not publicly visible."\<close>
  | InvalidField             \<comment> \<open>a declared serializer field rejects its input (blank, too long)\<close>
  | InvalidPk                \<comment> \<open>a primary-key field names no object of its queryset\<close>
  | Http404                  \<comment> \<open>\<^verbatim>\<open>get_object_or_404\<close> found nothing; "No appointment found to update."\<close>
  | InvalidAction            \<comment> \<open>"Invalid action type."\<close>
  | IntegrityError           \<comment> \<open>the store refuses a row that breaks \<^verbatim>\<open>unique_together\<close>\<close>
  | MultipleObjectsReturned  \<comment> \<open>\<^verbatim>\<open>objects.get\<close> matched more than one row\<close>
  | OTPNotFound              \<comment> \<open>"OTP not found" / "Invalid OTP"\<close>
  | OTPExpired               \<comment> \<open>"OTP has expired"\<close>
  | UserNotFound             \<comment> \<open>"User not found for this phone" / "User not found"\<close>
  | KeyError                 \<comment> \<open>\<^verbatim>\<open>data['date']\<close> on validated data without that key\<close>

type_synonym 'a result = "error list + 'a"

section \<open>The models (main_app/models.py)\<close>

record OTP =
  otp_phone :: string
  otp_code :: string
  otp_created_at :: instant

datatype role = scheduler_role | booker_role

record RoleUser =
  ru_id :: nat
  ru_user :: nat
  ru_role :: role

record Scheduler =
  s_id :: nat
  s_owner :: "nat option"
  s_name :: string
  s_family :: string
  s_phone :: string
  s_bio :: string
  s_is_public_search :: bool

record Booker =
  b_id :: nat
  b_owner :: "nat option"
  b_name :: string
  b_family :: string
  b_phone :: string

record Appointment =
  a_id :: nat
  a_scheduler :: nat
  a_booker :: "nat option"
  a_booker_name :: string
  a_date :: date
  a_time :: time_of_day
  a_note :: "string option"
  a_created_at :: instant

text \<open>
  The store holds one table per model, each in primary-key order, the join table of
  \<^verbatim>\<open>Booker.schedulers\<close> as (booker id, scheduler id) pairs, and the next
  primary key of the appointment table.
\<close>

record store =
  OTP_objects :: "OTP list"
  RoleUser_objects :: "RoleUser list"
  Scheduler_objects :: "Scheduler list"
  Booker_objects :: "Booker list"
  Booker_schedulers :: "(nat \<times> nat) list"
  Appointment_objects :: "Appointment list"
  Appointment_next_id :: nat

definition is_expired :: "clock \<Rightarrow> OTP \<Rightarrow> bool" where
  "is_expired clk otp = (now_instant clk > otp_created_at otp + timedelta_minutes 3)"

subsection \<open>Queries and writes on the appointment table\<close>

definition slot :: "Appointment \<Rightarrow> nat \<times> date \<times> time_of_day" where
  "slot a = (a_scheduler a, a_date a, a_time a)"

definition exists :: "'a list \<Rightarrow> bool" where
  \<comment> \<open>\<^verbatim>\<open>QuerySet.exists()\<close>\<close>
  "exists qs = (qs \<noteq> [])"

definition first :: "'a list \<Rightarrow> 'a option" where
  \<comment> \<open>\<^verbatim>\<open>QuerySet.first()\<close> on rows already in the queryset's order\<close>
  "first qs = (case qs of [] \<Rightarrow> None | x # _ \<Rightarrow> Some x)"

definition last_row :: "'a list \<Rightarrow> 'a option" where
  \<comment> \<open>\<^verbatim>\<open>QuerySet.last()\<close> on rows already in the queryset's order\<close>
  "last_row qs = (case rev qs of [] \<Rightarrow> None | x # _ \<Rightarrow> Some x)"

definition slot_filter :: "store \<Rightarrow> nat \<Rightarrow> date \<Rightarrow> time_of_day \<Rightarrow> Appointment list" where
  \<comment> \<open>\<^verbatim>\<open>Appointment.objects.filter(scheduler=s, date=d, time=t)\<close>\<close>
  "slot_filter db s d t = filter (\<lambda>a. slot a = (s, d, t)) (Appointment_objects db)"

definition Appointment_objects_create ::
  "store \<Rightarrow> clock \<Rightarrow> nat \<Rightarrow> nat option \<Rightarrow> string \<Rightarrow> date \<Rightarrow> time_of_day \<Rightarrow> string option
     \<Rightarrow> (store \<times> Appointment) result" where
  \<comment> \<open>INSERT: \<^verbatim>\<open>unique_together = ('scheduler', 'date', 'time')\<close> is checked by the store,
      \<^verbatim>\<open>created_at\<close> is \<^verbatim>\<open>auto_now_add\<close>, the primary key is the next free one\<close>
  "Appointment_objects_create db clk s b bn d t n =
     (if exists (slot_filter db s d t) then Inl [IntegrityError]
      else
        let a = \<lparr>a_id = Appointment_next_id db, a_scheduler = s, a_booker = b,
                 a_booker_name = bn, a_date = d, a_time = t, a_note = n,
                 a_created_at = now_instant clk\<rparr>
        in Inr (db\<lparr>Appointment_objects := Appointment_objects db @ [a],
                    Appointment_next_id := Suc (Appointment_next_id db)\<rparr>, a))"

definition Appointment_save :: "store \<Rightarrow> Appointment \<Rightarrow> store result" where
  \<comment> \<open>UPDATE of the row with the instance's primary key, under the same constraint\<close>
  "Appointment_save db a =
     (if exists (filter (\<lambda>x. a_id x \<noteq> a_id a) (slot_filter db (a_scheduler a) (a_date a) (a_time a)))
      then Inl [IntegrityError]
      else Inr (db\<lparr>Appointment_objects :=
                     map (\<lambda>x. if a_id x = a_id a then a else x) (Appointment_objects db)\<rparr>))"

definition Appointment_delete :: "store \<Rightarrow> Appointment \<Rightarrow> store" where
  "Appointment_delete db a =
     db\<lparr>Appointment_objects := filter (\<lambda>x. a_id x \<noteq> a_id a) (Appointment_objects db)\<rparr>"

definition get_object_or_404 :: "'a list \<Rightarrow> 'a result" where
  \<comment> \<open>applied to the rows that match the lookup\<close>
  "get_object_or_404 qs =
     (case qs of [] \<Rightarrow> Inl [Http404] | [x] \<Rightarrow> Inr x | _ \<Rightarrow> Inl [MultipleObjectsReturned])"

definition errors_of :: "'a result \<Rightarrow> error list" where
  \<comment> \<open>the errors one field contributes to \<^verbatim>\<open>serializer.errors\<close>\<close>
  "errors_of r = (case r of Inl es \<Rightarrow> es | Inr _ \<Rightarrow> [])"

definition PrimaryKeyRelatedField :: "'a list \<Rightarrow> ('a \<Rightarrow> nat) \<Rightarrow> nat \<Rightarrow> 'a result" where
  \<comment> \<open>\<^verbatim>\<open>queryset.get(pk=data)\<close>; no such row is the field error "Invalid pk"\<close>
  "PrimaryKeyRelatedField queryset pk data =
     (case filter (\<lambda>x. pk x = data) queryset of [] \<Rightarrow> Inl [InvalidPk] | x # _ \<Rightarrow> Inr x)"

section \<open>The serializers (main_app/api/serializers.py)\<close>

text \<open>
  A serializer receives the request payload after its declared fields have parsed it.
  \<^verbatim>\<open>is_valid\<close> first runs every field: a primary-key field resolves its key in its
  queryset and each \<^verbatim>\<open>validate_<field>\<close> method runs on a supplied value; the errors of
  all fields are collected in the order of \<^verbatim>\<open>Meta.fields\<close>. Only when no field failed
  do the serializer's validators run, and after them \<^verbatim>\<open>validate\<close>. A payload record is
  parameterised by what its relation fields hold: a primary key (\<open>nat\<close>) before field
  validation, the model instance after it. A field of a partial update is \<open>None\<close> when the
  payload does not have the key.

  A model serializer whose writable fields include all of \<^verbatim>\<open>scheduler\<close>, \<^verbatim>\<open>date\<close>
  and \<^verbatim>\<open>time\<close> gets a validator for the model's
  \<^verbatim>\<open>unique_together = ('scheduler', 'date', 'time')\<close>. This is so for
  \<^verbatim>\<open>AppointmentCreateSerializer\<close> and \<^verbatim>\<open>BookerAppointmentCreateSerializer\<close>. The
  serializers of the scheduler panel, \<^verbatim>\<open>AppointmentDetailSerializer\<close> and
  \<^verbatim>\<open>BookerPanelUpdateAppointmentProfileSerializer\<close> have no \<^verbatim>\<open>scheduler\<close> field and
  get none.
\<close>

definition UniqueTogetherValidator :: "store \<Rightarrow> nat \<Rightarrow> date \<Rightarrow> time_of_day \<Rightarrow> unit result" where
  \<comment> \<open>on creation there is no instance to exclude: any row in the slot is a conflict\<close>
  "UniqueTogetherValidator db s d t =
     (if exists (slot_filter db s d t) then Inl [UniqueTogether] else Inr ())"

subsection \<open>Admin\<close>

record ('b, 's) AppointmentCreate_data =
  acd_booker :: 'b
  acd_date :: date
  acd_time :: time_of_day
  acd_scheduler :: 's
  acd_note :: "string option"

definition AppointmentCreateSerializer_validate_time :: "time_of_day \<Rightarrow> time_of_day result" where
  "AppointmentCreateSerializer_validate_time value =
     (if value < time 8 0 \<or> value \<ge> time 20 0 then Inl [InvalidTimeWindow] else Inr value)"

definition AppointmentCreateSerializer_validate ::
  "store \<Rightarrow> (Booker, Scheduler) AppointmentCreate_data
     \<Rightarrow> (Booker, Scheduler) AppointmentCreate_data result" where
  "AppointmentCreateSerializer_validate db data =
     (if exists (slot_filter db (s_id (acd_scheduler data)) (acd_date data) (acd_time data))
      then Inl [SlotAlreadyBooked]
      else Inr data)"

definition AppointmentCreateSerializer_is_valid ::
  "store \<Rightarrow> (nat, nat) AppointmentCreate_data
     \<Rightarrow> (Booker, Scheduler) AppointmentCreate_data result" where
  "AppointmentCreateSerializer_is_valid db data =
     (let booker = PrimaryKeyRelatedField (Booker_objects db) b_id (acd_booker data);
          time_field = AppointmentCreateSerializer_validate_time (acd_time data);
          scheduler = PrimaryKeyRelatedField (Scheduler_objects db) s_id (acd_scheduler data)
      in case (booker, time_field, scheduler) of
           (Inr b, Inr t, Inr s) \<Rightarrow>
             (case UniqueTogetherValidator db (s_id s) (acd_date data) t of
                Inl es \<Rightarrow> Inl es
              | Inr _ \<Rightarrow>
                  AppointmentCreateSerializer_validate db
                    \<lparr>acd_booker = b, acd_date = acd_date data, acd_time = t,
                     acd_scheduler = s, acd_note = acd_note data\<rparr>)
         | _ \<Rightarrow> Inl (errors_of booker @ errors_of time_field @ errors_of scheduler))"

text \<open>
  \<^verbatim>\<open>AppointmentDetailSerializer\<close> writes \<^verbatim>\<open>date\<close>, \<^verbatim>\<open>time\<close> and \<^verbatim>\<open>note\<close>
  (its two username fields are read-only) and declares no validation method. The same three
  fields are the writable ones of \<^verbatim>\<open>BookerPanelUpdateAppointmentProfileSerializer\<close>.
\<close>

record AppointmentUpdate_data =
  upd_date :: "date option"
  upd_time :: "time_of_day option"
  upd_note :: "string option option"

definition ModelSerializer_update :: "Appointment \<Rightarrow> AppointmentUpdate_data \<Rightarrow> Appointment" where
  \<comment> \<open>\<^verbatim>\<open>setattr(instance, attr, value)\<close> for every key of the validated data\<close>
  "ModelSerializer_update instance data =
     instance\<lparr>a_date := (case upd_date data of None \<Rightarrow> a_date instance | Some d \<Rightarrow> d),
              a_time := (case upd_time data of None \<Rightarrow> a_time instance | Some t \<Rightarrow> t),
              a_note := (case upd_note data of None \<Rightarrow> a_note instance | Some n \<Rightarrow> n)\<rparr>"

subsection \<open>Scheduler\<close>

record 'b SchedulerCreate_data =
  sc_date :: date
  sc_time :: time_of_day
  sc_booker :: "'b option"
  sc_booker_name :: "string option"
  sc_note :: "string option"

record 'b SchedulerUpdate_data =
  su_date :: "date option"
  su_time :: "time_of_day option"
  su_booker :: "'b option option"
  su_booker_name :: "string option"
  su_note :: "string option option"

definition obj_booker :: "store \<Rightarrow> Appointment \<Rightarrow> Booker option" where
  \<comment> \<open>\<^verbatim>\<open>obj.booker\<close>: the row the foreign key names\<close>
  "obj_booker db obj =
     (case a_booker obj of None \<Rightarrow> None
      | Some pk \<Rightarrow> first (filter (\<lambda>b. b_id b = pk) (Booker_objects db)))"

definition SchedulerPanelAppointmentCreateSerializer_get_display_name ::
  "Booker option \<Rightarrow> string \<Rightarrow> string" where
  \<comment> \<open>the arguments are \<^verbatim>\<open>obj.booker\<close> and \<^verbatim>\<open>obj.booker_name\<close>\<close>
  "SchedulerPanelAppointmentCreateSerializer_get_display_name booker booker_name =
     (case booker of
        Some b \<Rightarrow> b_name b @ '' '' @ b_family b
      | None \<Rightarrow> if booker_name \<noteq> [] then booker_name else ''Unnamed'')"

definition SchedulerPanelAppointmentCreateSerializer_validate ::
  "store \<Rightarrow> Scheduler option \<Rightarrow> Appointment option \<Rightarrow> Booker SchedulerCreate_data
     \<Rightarrow> Booker SchedulerCreate_data result" where
  \<comment> \<open>\<open>context_scheduler\<close> is \<^verbatim>\<open>self.context.get('scheduler')\<close>, \<open>instance\<close> is \<^verbatim>\<open>self.instance\<close>\<close>
  "SchedulerPanelAppointmentCreateSerializer_validate db context_scheduler instance data =
     (if sc_booker data = None \<and> sc_booker_name data \<in> {None, Some []}
      then Inl [MissingBookerIdentity]
      else
        case context_scheduler of
          Some scheduler \<Rightarrow>
            if instance = None then
              (if exists (slot_filter db (s_id scheduler) (sc_date data) (sc_time data))
               then Inl [SlotAlreadyBooked]
               else Inr data)
            else Inr data
        | None \<Rightarrow> Inr data)"

definition resolve_booker :: "store \<Rightarrow> nat option \<Rightarrow> Booker option result" where
  \<comment> \<open>\<^verbatim>\<open>PrimaryKeyRelatedField(queryset=Booker.objects.all(), required=False, allow_null=True)\<close>\<close>
  "resolve_booker db data =
     (case data of None \<Rightarrow> Inr None
      | Some pk \<Rightarrow>
          (case PrimaryKeyRelatedField (Booker_objects db) b_id pk of
             Inl es \<Rightarrow> Inl es | Inr b \<Rightarrow> Inr (Some b)))"

definition SchedulerPanelAppointmentCreateSerializer_is_valid ::
  "store \<Rightarrow> Scheduler option \<Rightarrow> nat SchedulerCreate_data \<Rightarrow> Booker SchedulerCreate_data result" where
  "SchedulerPanelAppointmentCreateSerializer_is_valid db context_scheduler data =
     (case resolve_booker db (sc_booker data) of
        Inl es \<Rightarrow> Inl es
      | Inr b \<Rightarrow>
          SchedulerPanelAppointmentCreateSerializer_validate db context_scheduler None
            \<lparr>sc_date = sc_date data, sc_time = sc_time data, sc_booker = b,
             sc_booker_name = sc_booker_name data, sc_note = sc_note data\<rparr>)"

definition SchedulerPanelAppointmentUpdateSerializer_get_display_name ::
  "Booker option \<Rightarrow> string \<Rightarrow> string" where
  "SchedulerPanelAppointmentUpdateSerializer_get_display_name booker booker_name =
     (case booker of
        Some b \<Rightarrow> b_name b @ '' '' @ b_family b
      | None \<Rightarrow> if booker_name \<noteq> [] then booker_name else ''Unnamed'')"

definition SchedulerPanelAppointmentUpdateSerializer_validate ::
  "store \<Rightarrow> Scheduler option \<Rightarrow> Appointment option \<Rightarrow> Booker SchedulerUpdate_data
     \<Rightarrow> Booker SchedulerUpdate_data result" where
  "SchedulerPanelAppointmentUpdateSerializer_validate db context_scheduler instance data =
     (if su_booker data \<in> {None, Some None} \<and> su_booker_name data \<in> {None, Some []}
      then Inl [MissingBookerIdentity]
      else
        case context_scheduler of
          Some scheduler \<Rightarrow>
            if instance = None then
              (case (su_date data, su_time data) of
                 (Some d, Some t) \<Rightarrow>
                   if exists (slot_filter db (s_id scheduler) d t)
                   then Inl [SlotAlreadyBooked]
                   else Inr data
               | _ \<Rightarrow> Inl [KeyError])
            else Inr data
        | None \<Rightarrow> Inr data)"

definition SchedulerPanelAppointmentUpdateSerializer_is_valid ::
  "store \<Rightarrow> Scheduler option \<Rightarrow> Appointment \<Rightarrow> nat SchedulerUpdate_data
     \<Rightarrow> Booker SchedulerUpdate_data result" where
  "SchedulerPanelAppointmentUpdateSerializer_is_valid db context_scheduler instance data =
     (case (case su_booker data of None \<Rightarrow> Inr None
            | Some k \<Rightarrow> (case resolve_booker db k of Inl es \<Rightarrow> Inl es | Inr b \<Rightarrow> Inr (Some b))) of
        Inl es \<Rightarrow> Inl es
      | Inr b \<Rightarrow>
          SchedulerPanelAppointmentUpdateSerializer_validate db context_scheduler (Some instance)
            \<lparr>su_date = su_date data, su_time = su_time data, su_booker = b,
             su_booker_name = su_booker_name data, su_note = su_note data\<rparr>)"

definition SchedulerPanelAppointmentUpdateSerializer_update ::
  "Appointment \<Rightarrow> Booker SchedulerUpdate_data \<Rightarrow> Appointment" where
  \<comment> \<open>\<^verbatim>\<open>setattr(instance, attr, value)\<close> for every key of the validated data\<close>
  "SchedulerPanelAppointmentUpdateSerializer_update instance data =
     instance\<lparr>a_date := (case su_date data of None \<Rightarrow> a_date instance | Some d \<Rightarrow> d),
              a_time := (case su_time data of None \<Rightarrow> a_time instance | Some t \<Rightarrow> t),
              a_booker := (case su_booker data of None \<Rightarrow> a_booker instance
                           | Some b \<Rightarrow> map_option b_id b),
              a_booker_name := (case su_booker_name data of None \<Rightarrow> a_booker_name instance
                                | Some n \<Rightarrow> n),
              a_note := (case su_note data of None \<Rightarrow> a_note instance | Some n \<Rightarrow> n)\<rparr>"

subsection \<open>Booker\<close>

definition BookerPanelUpdateAppointmentProfileSerializer_validate_date ::
  "clock \<Rightarrow> date \<Rightarrow> date result" where
  "BookerPanelUpdateAppointmentProfileSerializer_validate_date clk value =
     (if value < today clk then Inl [PastDateOrTime] else Inr value)"

definition BookerPanelUpdateAppointmentProfileSerializer_validate_time ::
  "time_of_day \<Rightarrow> time_of_day result" where
  "BookerPanelUpdateAppointmentProfileSerializer_validate_time value =
     (if value < time 8 0 \<or> value \<ge> time 20 0 then Inl [InvalidTimeWindow] else Inr value)"

definition data_get_date :: "AppointmentUpdate_data \<Rightarrow> date \<Rightarrow> date" where
  \<comment> \<open>\<^verbatim>\<open>data.get('date', default)\<close>\<close>
  "data_get_date data dflt = (case upd_date data of Some d \<Rightarrow> d | None \<Rightarrow> dflt)"

definition data_get_time :: "AppointmentUpdate_data \<Rightarrow> time_of_day \<Rightarrow> time_of_day" where
  \<comment> \<open>\<^verbatim>\<open>data.get('time', default)\<close>\<close>
  "data_get_time data dflt = (case upd_time data of Some t \<Rightarrow> t | None \<Rightarrow> dflt)"

definition BookerPanelUpdateAppointmentProfileSerializer_validate ::
  "store \<Rightarrow> clock \<Rightarrow> Appointment \<Rightarrow> AppointmentUpdate_data \<Rightarrow> AppointmentUpdate_data result" where
  "BookerPanelUpdateAppointmentProfileSerializer_validate db clk instance data =
     (let selected_date = data_get_date data (a_date instance);
          selected_time = data_get_time data (a_time instance);
          scheduler = a_scheduler instance
      in if selected_date = today clk \<and> selected_time \<le> now_time clk
         then Inl [PastDateOrTime]
         else if exists (filter (\<lambda>x. a_id x \<noteq> a_id instance)
                           (slot_filter db scheduler selected_date selected_time))
         then Inl [SlotAlreadyBooked]
         else Inr data)"

definition BookerPanelUpdateAppointmentProfileSerializer_is_valid ::
  "store \<Rightarrow> clock \<Rightarrow> Appointment \<Rightarrow> AppointmentUpdate_data \<Rightarrow> AppointmentUpdate_data result" where
  "BookerPanelUpdateAppointmentProfileSerializer_is_valid db clk instance data =
     (let date_errors = (case upd_date data of None \<Rightarrow> []
            | Some d \<Rightarrow> errors_of (BookerPanelUpdateAppointmentProfileSerializer_validate_date clk d));
          time_errors = (case upd_time data of None \<Rightarrow> []
            | Some t \<Rightarrow> errors_of (BookerPanelUpdateAppointmentProfileSerializer_validate_time t))
      in if date_errors @ time_errors \<noteq> [] then Inl (date_errors @ time_errors)
         else BookerPanelUpdateAppointmentProfileSerializer_validate db clk instance data)"

definition booker_schedulers_all :: "store \<Rightarrow> Booker \<Rightarrow> Scheduler list" where
  \<comment> \<open>\<^verbatim>\<open>booker.schedulers.all()\<close>\<close>
  "booker_schedulers_all db booker =
     filter (\<lambda>s. (b_id booker, s_id s) \<in> set (Booker_schedulers db)) (Scheduler_objects db)"

definition booker_schedulers_add :: "store \<Rightarrow> Booker \<Rightarrow> Scheduler \<Rightarrow> store" where
  \<comment> \<open>\<^verbatim>\<open>booker.schedulers.add(scheduler)\<close>: a pair already in the join table is not added again\<close>
  "booker_schedulers_add db booker scheduler =
     (if (b_id booker, s_id scheduler) \<in> set (Booker_schedulers db) then db
      else db\<lparr>Booker_schedulers := Booker_schedulers db @ [(b_id booker, s_id scheduler)]\<rparr>)"

definition CharField :: "nat \<Rightarrow> string \<Rightarrow> string result" where
  \<comment> \<open>\<^verbatim>\<open>serializers.CharField(max_length=n)\<close> on the trimmed input: not blank, at most n long\<close>
  "CharField max_length data =
     (if data = [] \<or> length data > max_length then Inl [InvalidField] else Inr data)"

definition AddSchedulerSerializer_validate_scheduler_code :: "store \<Rightarrow> string \<Rightarrow> Scheduler result" where
  \<comment> \<open>\<^verbatim>\<open>Scheduler.objects.get(phone=value, is_public_search=True)\<close>\<close>
  "AddSchedulerSerializer_validate_scheduler_code db value =
     (case filter (\<lambda>s. s_phone s = value \<and> s_is_public_search s) (Scheduler_objects db) of
        [] \<Rightarrow> Inl [SchedulerNotFound]
      | [scheduler] \<Rightarrow> Inr scheduler
      | _ \<Rightarrow> Inl [MultipleObjectsReturned])"

definition AddSchedulerSerializer_is_valid :: "store \<Rightarrow> string \<Rightarrow> Scheduler result" where
  "AddSchedulerSerializer_is_valid db scheduler_code =
     (case CharField 100 scheduler_code of
        Inl es \<Rightarrow> Inl es
      | Inr value \<Rightarrow> AddSchedulerSerializer_validate_scheduler_code db value)"

definition AddSchedulerSerializer_save :: "store \<Rightarrow> Booker \<Rightarrow> Scheduler \<Rightarrow> store \<times> Scheduler" where
  "AddSchedulerSerializer_save db booker scheduler =
     (booker_schedulers_add db booker scheduler, scheduler)"

record 's BookerAppointmentCreate_data =
  bc_date :: date
  bc_time :: time_of_day
  bc_scheduler :: 's
  bc_note :: "string option"

definition BookerAppointmentCreateSerializer_validate ::
  "store \<Rightarrow> clock \<Rightarrow> Booker \<Rightarrow> Scheduler BookerAppointmentCreate_data
     \<Rightarrow> Scheduler BookerAppointmentCreate_data result" where
  \<comment> \<open>\<open>booker\<close> is \<^verbatim>\<open>self.context['booker']\<close>\<close>
  "BookerAppointmentCreateSerializer_validate db clk booker data =
     (let scheduler = bc_scheduler data;
          selected_date = bc_date data;
          selected_time = bc_time data
      in if scheduler \<notin> set (booker_schedulers_all db booker)
         then Inl [SchedulerNotInRoster]
         else if selected_date = today clk \<and> selected_time \<le> now_time clk
         then Inl [PastDateOrTime]
         else if selected_date < today clk
         then Inl [PastDateOrTime]
         else if exists (slot_filter db (s_id scheduler) selected_date selected_time)
         then Inl [SlotAlreadyBooked]
         else Inr data)"

definition BookerAppointmentCreateSerializer_is_valid ::
  "store \<Rightarrow> clock \<Rightarrow> Booker \<Rightarrow> nat BookerAppointmentCreate_data
     \<Rightarrow> Scheduler BookerAppointmentCreate_data result" where
  \<comment> \<open>\<^verbatim>\<open>__init__\<close> makes \<^verbatim>\<open>booker.schedulers.all()\<close> the queryset of the scheduler field\<close>
  "BookerAppointmentCreateSerializer_is_valid db clk booker data =
     (case PrimaryKeyRelatedField (booker_schedulers_all db booker) s_id (bc_scheduler data) of
        Inl es \<Rightarrow> Inl es
      | Inr s \<Rightarrow>
          (case UniqueTogetherValidator db (s_id s) (bc_date data) (bc_time data) of
             Inl es \<Rightarrow> Inl es
           | Inr _ \<Rightarrow>
               BookerAppointmentCreateSerializer_validate db clk booker
                 \<lparr>bc_date = bc_date data, bc_time = bc_time data, bc_scheduler = s,
                  bc_note = bc_note data\<rparr>))"

section \<open>The views (main_app/api/views.py)\<close>

text \<open>
  A view takes the store, the clock and the request and returns an error or the new
  store with the response. The permission classes have run before: the caller of an
  admin view is an administrator, the caller of a panel view is named by the primary key
  of its \<^verbatim>\<open>RoleUser\<close> (\<^verbatim>\<open>request.user.role_profile\<close>).
\<close>

subsection \<open>AdminPanelViewSet\<close>

definition AdminPanelViewSet_create_appointment ::
  "store \<Rightarrow> clock \<Rightarrow> (nat, nat) AppointmentCreate_data \<Rightarrow> (store \<times> Appointment) result" where
  "AdminPanelViewSet_create_appointment db clk request_data =
     (case AppointmentCreateSerializer_is_valid db request_data of
        Inl es \<Rightarrow> Inl es
      | Inr data \<Rightarrow>
          Appointment_objects_create db clk (s_id (acd_scheduler data))
            (Some (b_id (acd_booker data))) [] (acd_date data) (acd_time data) (acd_note data))"

definition AdminPanelViewSet_appointment_detail_put ::
  "store \<Rightarrow> nat \<Rightarrow> AppointmentUpdate_data \<Rightarrow> (store \<times> Appointment) result" where
  "AdminPanelViewSet_appointment_detail_put db pk request_data =
     (case get_object_or_404 (filter (\<lambda>a. a_id a = pk) (Appointment_objects db)) of
        Inl es \<Rightarrow> Inl es
      | Inr appointment \<Rightarrow>
          (let updated = ModelSerializer_update appointment request_data
           in case Appointment_save db updated of
                Inl es \<Rightarrow> Inl es
              | Inr db' \<Rightarrow> Inr (db', updated)))"






subsection \<open>SchedulerPanelViewSet\<close>

definition get_scheduler :: "store \<Rightarrow> nat \<Rightarrow> Scheduler result" where
  \<comment> \<open>\<^verbatim>\<open>get_object_or_404(Scheduler, owner=role_user)\<close>\<close>
  "get_scheduler db role_user =
     get_object_or_404 (filter (\<lambda>s. s_owner s = Some role_user) (Scheduler_objects db))"

record SchedulerPanelAppointment_response =
  r_id :: nat
  r_date :: date
  r_time :: time_of_day
  r_booker :: "nat option"
  r_booker_name :: string
  r_display_name :: string
  r_note :: "string option"

definition SchedulerPanelAppointmentCreateSerializer_data ::
  "store \<Rightarrow> Appointment \<Rightarrow> SchedulerPanelAppointment_response" where
  "SchedulerPanelAppointmentCreateSerializer_data db obj =
     \<lparr>r_id = a_id obj, r_date = a_date obj, r_time = a_time obj, r_booker = a_booker obj,
      r_booker_name = a_booker_name obj,
      r_display_name = SchedulerPanelAppointmentCreateSerializer_get_display_name
                         (obj_booker db obj) (a_booker_name obj),
      r_note = a_note obj\<rparr>"

definition SchedulerPanelAppointmentUpdateSerializer_data ::
  "store \<Rightarrow> Appointment \<Rightarrow> SchedulerPanelAppointment_response" where
  "SchedulerPanelAppointmentUpdateSerializer_data db obj =
     \<lparr>r_id = a_id obj, r_date = a_date obj, r_time = a_time obj, r_booker = a_booker obj,
      r_booker_name = a_booker_name obj,
      r_display_name = SchedulerPanelAppointmentUpdateSerializer_get_display_name
                         (obj_booker db obj) (a_booker_name obj),
      r_note = a_note obj\<rparr>"

datatype manage_request =
    action_create "nat SchedulerCreate_data"
  | action_update "nat option" "nat SchedulerUpdate_data"
  | action_delete "nat option"
  | action_other

datatype manage_response =
    Created SchedulerPanelAppointment_response
  | Updated SchedulerPanelAppointment_response
  | Deleted

definition manage_appointments_create ::
  "store \<Rightarrow> clock \<Rightarrow> Scheduler \<Rightarrow> nat SchedulerCreate_data
     \<Rightarrow> (store \<times> manage_response) result" where
  \<comment> \<open>\<^verbatim>\<open>action_type == "create"\<close>: the serializer gets \<^verbatim>\<open>context={'scheduler': scheduler}\<close>,
      and \<^verbatim>\<open>save(scheduler=scheduler)\<close> inserts; a \<^verbatim>\<open>booker_name\<close> not given is the
      model's default, the empty string\<close>
  "manage_appointments_create db clk scheduler request_data =
     (case SchedulerPanelAppointmentCreateSerializer_is_valid db (Some scheduler) request_data of
        Inl es \<Rightarrow> Inl es
      | Inr data \<Rightarrow>
          (case Appointment_objects_create db clk (s_id scheduler) (map_option b_id (sc_booker data))
                  (case sc_booker_name data of None \<Rightarrow> [] | Some n \<Rightarrow> n)
                  (sc_date data) (sc_time data) (sc_note data) of
             Inl es \<Rightarrow> Inl es
           | Inr (db', obj) \<Rightarrow>
               Inr (db', Created (SchedulerPanelAppointmentCreateSerializer_data db' obj))))"

definition manage_appointments_update ::
  "store \<Rightarrow> Scheduler \<Rightarrow> nat option \<Rightarrow> nat SchedulerUpdate_data
     \<Rightarrow> (store \<times> manage_response) result" where
  \<comment> \<open>\<^verbatim>\<open>action_type == "update"\<close>: the serializer gets the instance and no context\<close>
  "manage_appointments_update db scheduler appointment_id request_data =
     (case get_object_or_404
             (filter (\<lambda>a. Some (a_id a) = appointment_id \<and> a_scheduler a = s_id scheduler)
                (Appointment_objects db)) of
        Inl es \<Rightarrow> Inl es
      | Inr appointment \<Rightarrow>
          (case SchedulerPanelAppointmentUpdateSerializer_is_valid db None appointment request_data of
             Inl es \<Rightarrow> Inl es
           | Inr data \<Rightarrow>
               (let updated = SchedulerPanelAppointmentUpdateSerializer_update appointment data
                in case Appointment_save db updated of
                     Inl es \<Rightarrow> Inl es
                   | Inr db' \<Rightarrow>
                       Inr (db', Updated (SchedulerPanelAppointmentUpdateSerializer_data db' updated)))))"

definition manage_appointments_delete ::
  "store \<Rightarrow> Scheduler \<Rightarrow> nat option \<Rightarrow> (store \<times> manage_response) result" where
  "manage_appointments_delete db scheduler appointment_id =
     (case get_object_or_404
             (filter (\<lambda>a. Some (a_id a) = appointment_id \<and> a_scheduler a = s_id scheduler)
                (Appointment_objects db)) of
        Inl es \<Rightarrow> Inl es
      | Inr appointment \<Rightarrow> Inr (Appointment_delete db appointment, Deleted))"

definition SchedulerPanelViewSet_manage_appointments ::
  "store \<Rightarrow> clock \<Rightarrow> nat \<Rightarrow> manage_request \<Rightarrow> (store \<times> manage_response) result" where
  "SchedulerPanelViewSet_manage_appointments db clk role_user request =
     (case get_scheduler db role_user of
        Inl es \<Rightarrow> Inl es
      | Inr scheduler \<Rightarrow>
          (case request of
             action_create request_data \<Rightarrow>
               manage_appointments_create db clk scheduler request_data
           | action_update appointment_id request_data \<Rightarrow>
               manage_appointments_update db scheduler appointment_id request_data
           | action_delete appointment_id \<Rightarrow>
               manage_appointments_delete db scheduler appointment_id
           | action_other \<Rightarrow> Inl [InvalidAction]))"

subsection \<open>BookerPanelViewSet\<close>

definition get_booker :: "store \<Rightarrow> nat \<Rightarrow> Booker result" where
  \<comment> \<open>\<^verbatim>\<open>get_object_or_404(Booker, owner=role_user)\<close>\<close>
  "get_booker db role_user =
     get_object_or_404 (filter (\<lambda>b. b_owner b = Some role_user) (Booker_objects db))"

definition upcoming :: "clock \<Rightarrow> Appointment \<Rightarrow> bool" where
  \<comment> \<open>\<^verbatim>\<open>Q(date__gt=today) | Q(date=today, time__gt=current_time)\<close>\<close>
  "upcoming clk a = (a_date a > today clk \<or> (a_date a = today clk \<and> a_time a > now_time clk))"

definition Meta_ordering :: "Appointment list \<Rightarrow> Appointment list" where
  \<comment> \<open>\<^verbatim>\<open>ordering = ['date', 'time']\<close>, the order of an appointment queryset that sets no other;
      rows equal in both keep their primary-key order\<close>
  "Meta_ordering qs = sort_key (\<lambda>a. (a_date a, a_time a)) qs"

definition active_appointments :: "store \<Rightarrow> clock \<Rightarrow> Booker \<Rightarrow> Appointment list" where
  \<comment> \<open>\<^verbatim>\<open>Appointment.objects.filter(booker=booker).filter(Q(...) | Q(...))\<close>\<close>
  "active_appointments db clk booker =
     Meta_ordering
       (filter (upcoming clk) (filter (\<lambda>a. a_booker a = Some (b_id booker)) (Appointment_objects db)))"

definition BookerPanelViewSet_update_my_appointment ::
  "store \<Rightarrow> clock \<Rightarrow> nat \<Rightarrow> AppointmentUpdate_data \<Rightarrow> (store \<times> Appointment) result" where
  "BookerPanelViewSet_update_my_appointment db clk role_user request_data =
     (case get_booker db role_user of
        Inl es \<Rightarrow> Inl es
      | Inr booker \<Rightarrow>
          (case first (active_appointments db clk booker) of
             None \<Rightarrow> Inl [Http404]
           | Some appointment \<Rightarrow>
               (case BookerPanelUpdateAppointmentProfileSerializer_is_valid db clk appointment
                       request_data of
                  Inl es \<Rightarrow> Inl es
                | Inr data \<Rightarrow>
                    (let updated = ModelSerializer_update appointment data
                     in case Appointment_save db updated of
                          Inl es \<Rightarrow> Inl es
                        | Inr db' \<Rightarrow> Inr (db', updated)))))"

definition BookerPanelViewSet_reserve_appointment ::
  "store \<Rightarrow> clock \<Rightarrow> nat \<Rightarrow> nat BookerAppointmentCreate_data \<Rightarrow> (store \<times> Appointment) result" where
  "BookerPanelViewSet_reserve_appointment db clk role_user request_data =
     (case get_booker db role_user of
        Inl es \<Rightarrow> Inl es
      | Inr booker \<Rightarrow>
          (let active_appointment_exists = exists (active_appointments db clk booker)
           in if active_appointment_exists then Inl [ActiveAppointmentExists]
              else
                case BookerAppointmentCreateSerializer_is_valid db clk booker request_data of
                  Inl es \<Rightarrow> Inl es
                | Inr data \<Rightarrow>
                    Appointment_objects_create db clk (s_id (bc_scheduler data)) (Some (b_id booker))
                      [] (bc_date data) (bc_time data) (bc_note data)))"

definition BookerPanelViewSet_add_scheduler ::
  "store \<Rightarrow> nat \<Rightarrow> string \<Rightarrow> (store \<times> Scheduler) result" where
  "BookerPanelViewSet_add_scheduler db role_user scheduler_code =
     (case get_booker db role_user of
        Inl es \<Rightarrow> Inl es
      | Inr booker \<Rightarrow>
          (case AddSchedulerSerializer_is_valid db scheduler_code of
             Inl es \<Rightarrow> Inl es
           | Inr scheduler \<Rightarrow> Inr (AddSchedulerSerializer_save db booker scheduler)))"

definition BookerPanelViewSet_list_schedulers :: "store \<Rightarrow> nat \<Rightarrow> Scheduler list result" where
  "BookerPanelViewSet_list_schedulers db role_user =
     (case get_booker db role_user of
        Inl es \<Rightarrow> Inl es
      | Inr booker \<Rightarrow> Inr (booker_schedulers_all db booker))"

section \<open>Pagination (main_app/pagination.py)\<close>

text \<open>
  \<^verbatim>\<open>AppointmentsCPagination\<close> sets two attributes of the framework's cursor
  pagination and inherits \<^verbatim>\<open>paginate_queryset\<close>. That method always enforces the
  paginator's own ordering: it calls \<^verbatim>\<open>order_by\<close> with the \<^verbatim>\<open>ordering\<close> attribute
  (reversed for a backward cursor), which replaces whatever order the queryset had, keeps
  the rows beyond the cursor's position, skips the cursor's offset and takes
  \<^verbatim>\<open>page_size\<close> rows. A cursor is (offset, reverse, position); a request without
  one starts at the beginning. The query that results orders by time alone; rows of equal
  time come back in primary-key order, whatever order the view had asked for.
\<close>

definition page_size :: nat where
  "page_size = 5"

definition ordering :: "Appointment \<Rightarrow> time_of_day" where
  \<comment> \<open>\<^verbatim>\<open>ordering = 'time'\<close>\<close>
  "ordering = a_time"

record Cursor =
  c_offset :: nat
  c_reverse :: bool
  c_position :: "time_of_day option"

definition paginate_queryset :: "Appointment list \<Rightarrow> Cursor option \<Rightarrow> Appointment list" where
  "paginate_queryset queryset cursor =
     (let offset = (case cursor of None \<Rightarrow> 0 | Some c \<Rightarrow> c_offset c);
          reverse = (case cursor of None \<Rightarrow> False | Some c \<Rightarrow> c_reverse c);
          current_position = (case cursor of None \<Rightarrow> None | Some c \<Rightarrow> c_position c);
          by_pk = sort_key a_id queryset;
          ordered = (if reverse then rev (sort_key ordering (rev by_pk))
                     else sort_key ordering by_pk);
          beyond = (case current_position of
                      None \<Rightarrow> ordered
                    | Some p \<Rightarrow>
                        if reverse then filter (\<lambda>a. ordering a < p) ordered
                        else filter (\<lambda>a. ordering a > p) ordered);
          page = take page_size (drop offset beyond)
      in if reverse then rev page else page)"

definition order_by_minus_created_at :: "Appointment list \<Rightarrow> Appointment list" where
  \<comment> \<open>\<^verbatim>\<open>.order_by('-created_at')\<close>\<close>
  "order_by_minus_created_at qs = rev (sort_key a_created_at (rev qs))"

definition order_by_minus_date :: "Appointment list \<Rightarrow> Appointment list" where
  \<comment> \<open>\<^verbatim>\<open>.order_by('-date')\<close>\<close>
  "order_by_minus_date qs = rev (sort_key a_date (rev qs))"

definition AdminPanelViewSet_list_appointments :: "store \<Rightarrow> Cursor option \<Rightarrow> Appointment list" where
  "AdminPanelViewSet_list_appointments db cursor =
     (let queryset = order_by_minus_created_at (Appointment_objects db)
      in paginate_queryset queryset cursor)"

definition SchedulerPanelViewSet_appointments ::
  "store \<Rightarrow> nat \<Rightarrow> Cursor option \<Rightarrow> Appointment list result" where
  "SchedulerPanelViewSet_appointments db role_user cursor =
     (case get_scheduler db role_user of
        Inl es \<Rightarrow> Inl es
      | Inr scheduler \<Rightarrow>
          (let queryset = order_by_minus_date
                            (filter (\<lambda>a. a_scheduler a = s_id scheduler) (Appointment_objects db))
           in Inr (paginate_queryset queryset cursor)))"

section \<open>One-time passwords (account_app/api/views.py)\<close>

definition VerifyOTPSerializer_is_valid :: "string \<Rightarrow> string \<Rightarrow> (string \<times> string) result" where
  \<comment> \<open>\<^verbatim>\<open>phone = CharField(max_length=11)\<close>, \<^verbatim>\<open>code = CharField(max_length=6)\<close>\<close>
  "VerifyOTPSerializer_is_valid phone code =
     (case (CharField 11 phone, CharField 6 code) of
        (Inr p, Inr c) \<Rightarrow> Inr (p, c)
      | (p, c) \<Rightarrow> Inl (errors_of p @ errors_of c))"

definition role_user_for_phone :: "store \<Rightarrow> string \<Rightarrow> RoleUser option" where
  \<comment> \<open>\<^verbatim>\<open>RoleUser.objects.filter(Q(booker_owner__phone=phone) | Q(scheduler_owner__phone=phone)).first()\<close>\<close>
  "role_user_for_phone db phone =
     first (filter (\<lambda>r.
              exists (filter (\<lambda>b. b_owner b = Some (ru_id r) \<and> b_phone b = phone) (Booker_objects db))
              \<or> exists (filter (\<lambda>s. s_owner s = Some (ru_id r) \<and> s_phone s = phone)
                          (Scheduler_objects db)))
            (RoleUser_objects db))"

datatype tokens = RefreshToken_for_user nat

definition VerifyOTPView_post :: "store \<Rightarrow> clock \<Rightarrow> string \<Rightarrow> string \<Rightarrow> tokens result" where
  "VerifyOTPView_post db clk request_phone request_code =
     (case VerifyOTPSerializer_is_valid request_phone request_code of
        Inl es \<Rightarrow> Inl es
      | Inr (phone, code) \<Rightarrow>
          (case last_row (filter (\<lambda>x. otp_phone x = phone \<and> otp_code x = code) (OTP_objects db)) of
             None \<Rightarrow> Inl [OTPNotFound]
           | Some otp \<Rightarrow>
               if is_expired clk otp then Inl [OTPExpired]
               else
                 (case role_user_for_phone db phone of
                    Some role_user \<Rightarrow> Inr (RefreshToken_for_user (ru_user role_user))
                  | None \<Rightarrow> Inl [UserNotFound])))"

definition OTPLoginVerifyView_post :: "store \<Rightarrow> clock \<Rightarrow> string \<Rightarrow> string \<Rightarrow> tokens result" where
  "OTPLoginVerifyView_post db clk request_phone request_code =
     (case VerifyOTPSerializer_is_valid request_phone request_code of
        Inl es \<Rightarrow> Inl es
      | Inr (phone, code) \<Rightarrow>
          if exists (filter (\<lambda>x. otp_phone x = phone \<and> otp_code x = code) (OTP_objects db))
          then
            (case role_user_for_phone db phone of
               Some role_user \<Rightarrow> Inr (RefreshToken_for_user (ru_user role_user))
             | None \<Rightarrow> Inl [UserNotFound])
          else Inl [OTPNotFound])"

section \<open>The stores the views can produce\<close>



section \<open>A small store for concrete runs\<close>

definition sara :: Scheduler where
  "sara = \<lparr>s_id = 1, s_owner = Some 10, s_name = ''Sara'', s_family = ''Smith'',
           s_phone = ''09987654321'', s_bio = ''Hair'', s_is_public_search = True\<rparr>"

definition hidden :: Scheduler where
  "hidden = \<lparr>s_id = 2, s_owner = Some 12, s_name = ''Hal'', s_family = ''Hill'',
             s_phone = ''09111111111'', s_bio = ''Nails'', s_is_public_search = False\<rparr>"

definition john :: Booker where
  "john = \<lparr>b_id = 1, b_owner = Some 11, b_name = ''John'', b_family = ''Doe'',
           b_phone = ''09123456789''\<rparr>"

definition booked :: Appointment where
  \<comment> \<open>John with Sara on 10 June 2025 at 09:00\<close>
  "booked = \<lparr>a_id = 1, a_scheduler = 1, a_booker = Some 1, a_booker_name = [],
             a_date = (2025, 6, 10), a_time = (9, 0, 0, 0), a_note = None, a_created_at = 1000\<rparr>"

definition later :: Appointment where
  \<comment> \<open>a walk-in with Sara on 9 June 2025 at 10:00, entered after \<open>booked\<close>\<close>
  "later = \<lparr>a_id = 2, a_scheduler = 1, a_booker = None, a_booker_name = ''Walk-in'',
            a_date = (2025, 6, 9), a_time = (10, 0, 0, 0), a_note = None, a_created_at = 2000\<rparr>"

definition noon :: clock where
  \<comment> \<open>9 June 2025 at 12:00\<close>
  "noon = \<lparr>today = (2025, 6, 9), now_time = (12, 0, 0, 0), now_instant = 240000001\<rparr>"

definition db0 :: store where
  \<comment> \<open>the profiles with no appointment; John has not added any scheduler\<close>
  "db0 = \<lparr>OTP_objects = [\<lparr>otp_phone = ''09123456789'', otp_code = ''654321'', otp_created_at = 0\<rparr>],
          RoleUser_objects = [\<lparr>ru_id = 10, ru_user = 100, ru_role = scheduler_role\<rparr>,
                              \<lparr>ru_id = 11, ru_user = 101, ru_role = booker_role\<rparr>,
                              \<lparr>ru_id = 12, ru_user = 102, ru_role = scheduler_role\<rparr>],
          Scheduler_objects = [sara, hidden],
          Booker_objects = [john],
          Booker_schedulers = [],
          Appointment_objects = [],
          Appointment_next_id = 1\<rparr>"

definition db1 :: store where
  \<comment> \<open>John has added Sara and holds \<open>booked\<close>\<close>
  "db1 = db0\<lparr>Booker_schedulers := [(1, 1)], Appointment_objects := [booked],
             Appointment_next_id := 2\<rparr>"

definition db2 :: store where
  \<comment> \<open>as \<open>db1\<close>, with the walk-in entered afterwards\<close>
  "db2 = db1\<lparr>Appointment_objects := [booked, later], Appointment_next_id := 3\<rparr>"

definition moved :: Appointment where
  \<comment> \<open>\<open>booked\<close> after John has moved it to 11 June at 15:30\<close>
  "moved = booked\<lparr>a_date := (2025, 6, 11), a_time := (15, 30, 0, 0), a_note := Some ''after lunch''\<rparr>"

definition later_noon :: clock where
  \<comment> \<open>11 June 2025 at 12:00, when \<open>booked\<close> is past\<close>
  "later_noon = \<lparr>today = (2025, 6, 11), now_time = (12, 0, 0, 0), now_instant = 172800000000\<rparr>"

definition morning :: clock where
  \<comment> \<open>9 June 2025 at 08:00, when \<open>later\<close> is still to come\<close>
  "morning = \<lparr>today = (2025, 6, 9), now_time = (8, 0, 0, 0), now_instant = 100\<rparr>"

definition walk_in :: Appointment where
  \<comment> \<open>a walk-in with Sara on 10 June 2025 at 08:30, entered at \<open>noon\<close>\<close>
  "walk_in = \<lparr>a_id = 1, a_scheduler = 1, a_booker = None, a_booker_name = ''Walk-in'',
              a_date = (2025, 6, 10), a_time = (8, 30, 0, 0), a_note = None,
              a_created_at = 240000001\<rparr>"

definition db3 :: store where
  \<comment> \<open>John has added Sara; the only appointment is the walk-in\<close>
  "db3 = db0\<lparr>Booker_schedulers := [(1, 1)], Appointment_objects := [walk_in],
             Appointment_next_id := 2\<rparr>"

section \<open>Unfolding the example store\<close>

lemmas example_defs =
  sara_def hidden_def john_def booked_def later_def moved_def walk_in_def
  noon_def morning_def later_noon_def db0_def db1_def db2_def db3_def

section \<open>C4: one-time-password verification\<close>

lemma VerifyOTPView_post_expired:
  assumes "VerifyOTPSerializer_is_valid phone code = Inr (phone, code)"
    and "last_row (filter (\<lambda>x. otp_phone x = phone \<and> otp_code x = code) (OTP_objects db)) = Some otp"
    and "now_instant clk - otp_created_at otp > timedelta_minutes 3"
  shows "VerifyOTPView_post db clk phone code = Inl [OTPExpired]"
  using assms by (simp add: VerifyOTPView_post_def is_expired_def)

text \<open>
  C4. Verification of a code that is older than three minutes must fail with Expired on
  verify-otp and on login-verify alike. In \<open>db0\<close> the only code of John's phone was
  created at instant 0 and the clock stands four minutes later: verify-otp answers
  "OTP has expired", but login-verify, which only asks whether a matching code exists,
  issues the tokens of John's account.
\<close>

theorem C4_login_verify_ignores_expiry:
  "is_expired noon \<lparr>otp_phone = ''09123456789'', otp_code = ''654321'', otp_created_at = 0\<rparr>
   \<and> VerifyOTPView_post db0 noon ''09123456789'' ''654321'' = Inl [OTPExpired]
   \<and> OTPLoginVerifyView_post db0 noon ''09123456789'' ''654321'' = Inr (RefreshToken_for_user 101)"
  by (simp add: OTPLoginVerifyView_post_def VerifyOTPView_post_def VerifyOTPSerializer_is_valid_def
      CharField_def exists_def role_user_for_phone_def first_def last_row_def is_expired_def
      timedelta_minutes_def example_defs errors_of_def)

section \<open>C9: paginated listings\<close>

lemma paginate_queryset_first_page:
  "paginate_queryset queryset None = take 5 (sort_key a_time (sort_key a_id queryset))"
  by (simp add: paginate_queryset_def page_size_def ordering_def)

lemma paginate_queryset_page_size: "length (paginate_queryset queryset cursor) \<le> 5"
  by (simp add: paginate_queryset_def page_size_def Let_def)

lemma first_page_sorted_by_time: "sorted (map a_time (paginate_queryset queryset None))"
  unfolding paginate_queryset_first_page
  by (simp add: take_map [symmetric] sorted_wrt_take)

lemma AdminPanelViewSet_list_appointments_first_page:
  "sorted (map a_time (AdminPanelViewSet_list_appointments db None))
   \<and> length (AdminPanelViewSet_list_appointments db None) \<le> 5"
  by (simp add: AdminPanelViewSet_list_appointments_def first_page_sorted_by_time
      paginate_queryset_page_size)

lemma SchedulerPanelViewSet_appointments_first_page:
  "SchedulerPanelViewSet_appointments db ru None = Inr page
   \<Longrightarrow> sorted (map a_time page) \<and> length page \<le> 5"
  by (auto simp add: SchedulerPanelViewSet_appointments_def first_page_sorted_by_time
      paginate_queryset_page_size split: sum.splits)

text \<open>
  C9. The admin listing is to be ordered by creation time, newest first. In \<open>db2\<close> the
  09:00 appointment was created before the 10:00 one, so newest first is
  \<open>[later, booked]\<close>, which is what the view's own \<^verbatim>\<open>order_by('-created_at')\<close> yields;
  the paginator then orders by time of day and the page that is served is
  \<open>[booked, later]\<close>.
\<close>

theorem C9_admin_listing_is_ordered_by_time:
  "order_by_minus_created_at (Appointment_objects db2) = [later, booked]
   \<and> AdminPanelViewSet_list_appointments db2 None = [booked, later]"
  by (simp add: AdminPanelViewSet_list_appointments_def paginate_queryset_first_page
      order_by_minus_created_at_def example_defs)

section \<open>C3: the time-of-day window\<close>

lemma window_neg: "(\<not> (time 8 0 \<le> t \<and> t < time 20 0)) = (t < time 8 0 \<or> t \<ge> time 20 0)"
  by (simp only: not_le not_less de_Morgan_conj)

lemma admin_create_window_error:
  "(\<exists>es. AdminPanelViewSet_create_appointment db clk d = Inl es \<and> InvalidTimeWindow \<in> set es)
   \<longleftrightarrow> \<not> (time 8 0 \<le> acd_time d \<and> acd_time d < time 20 0)"
  unfolding AdminPanelViewSet_create_appointment_def AppointmentCreateSerializer_is_valid_def UniqueTogetherValidator_def
    AppointmentCreateSerializer_validate_time_def AppointmentCreateSerializer_validate_def
    Appointment_objects_create_def PrimaryKeyRelatedField_def Let_def window_neg
  by (auto split: sum.splits list.splits simp add: errors_of_def)

lemma booker_update_window_error:
  "get_booker db ru = Inr b \<Longrightarrow> first (active_appointments db clk b) = Some a \<Longrightarrow>
   (\<exists>es. BookerPanelViewSet_update_my_appointment db clk ru u = Inl es \<and> InvalidTimeWindow \<in> set es)
   \<longleftrightarrow> (\<exists>t. upd_time u = Some t \<and> \<not> (time 8 0 \<le> t \<and> t < time 20 0))"
  unfolding BookerPanelViewSet_update_my_appointment_def
    BookerPanelUpdateAppointmentProfileSerializer_is_valid_def
    BookerPanelUpdateAppointmentProfileSerializer_validate_time_def
    BookerPanelUpdateAppointmentProfileSerializer_validate_date_def
    BookerPanelUpdateAppointmentProfileSerializer_validate_def
    Appointment_save_def Let_def window_neg
  by (auto split: sum.splits option.splits simp add: errors_of_def)

lemma manage_appointments_no_window_error:
  "SchedulerPanelViewSet_manage_appointments db clk ru req = Inl es \<Longrightarrow> InvalidTimeWindow \<notin> set es"
  unfolding SchedulerPanelViewSet_manage_appointments_def manage_appointments_create_def
    manage_appointments_update_def manage_appointments_delete_def get_scheduler_def
    get_object_or_404_def SchedulerPanelAppointmentCreateSerializer_is_valid_def
    SchedulerPanelAppointmentUpdateSerializer_is_valid_def
    SchedulerPanelAppointmentCreateSerializer_validate_def
    SchedulerPanelAppointmentUpdateSerializer_validate_def resolve_booker_def
    PrimaryKeyRelatedField_def Appointment_objects_create_def Appointment_save_def Let_def
  by (auto split: sum.splits option.splits list.splits manage_request.splits if_splits prod.splits)

lemma admin_put_no_window_error:
  "AdminPanelViewSet_appointment_detail_put db pk u = Inl es \<Longrightarrow> InvalidTimeWindow \<notin> set es"
  unfolding AdminPanelViewSet_appointment_detail_put_def get_object_or_404_def
    Appointment_save_def Let_def
  by (auto split: sum.splits list.splits if_splits)

lemma validate_time_boundaries:
  "AppointmentCreateSerializer_validate_time (time 8 0) = Inr (time 8 0)"
  "AppointmentCreateSerializer_validate_time (time 20 0) = Inl [InvalidTimeWindow]"
  "AppointmentCreateSerializer_validate_time (time 7 59) = Inl [InvalidTimeWindow]"
  "BookerPanelUpdateAppointmentProfileSerializer_validate_time (time 8 0) = Inr (time 8 0)"
  "BookerPanelUpdateAppointmentProfileSerializer_validate_time (time 20 0) = Inl [InvalidTimeWindow]"
  "BookerPanelUpdateAppointmentProfileSerializer_validate_time (time 7 59) = Inl [InvalidTimeWindow]"
  by (simp_all add: AppointmentCreateSerializer_validate_time_def
      BookerPanelUpdateAppointmentProfileSerializer_validate_time_def time_def)

text \<open>
  C3, as the claim states it, fails: the window is to hold for every actor, yet Sara, acting
  through the scheduler panel, books a walk-in at 07:59 and the appointment is written.
\<close>

theorem C3_scheduler_books_outside_window:
  "(7, 59, 0, 0) < time 8 0 \<and>
   (case SchedulerPanelViewSet_manage_appointments db1 noon 10
           (action_create \<lparr>sc_date = (2025, 6, 11), sc_time = (7, 59, 0, 0), sc_booker = None,
                            sc_booker_name = Some ''Walk-in'', sc_note = None\<rparr>) of
      Inl es \<Rightarrow> []
    | Inr (db', r) \<Rightarrow> map slot (Appointment_objects db'))
   = [(1, (2025, 6, 10), (9, 0, 0, 0)), (1, (2025, 6, 11), (7, 59, 0, 0))]"
  by (simp add: SchedulerPanelViewSet_manage_appointments_def manage_appointments_create_def
      get_scheduler_def get_object_or_404_def SchedulerPanelAppointmentCreateSerializer_is_valid_def
      SchedulerPanelAppointmentCreateSerializer_validate_def resolve_booker_def
      Appointment_objects_create_def exists_def slot_filter_def slot_def time_def Let_def
      example_defs)

text \<open>
  C3, amended. The window \<open>08:00 \<le> t < 20:00\<close> is enforced where a \<^verbatim>\<open>validate_time\<close>
  method is declared: on creation by the admin and on update by the booker. An admin
  creation is answered with InvalidTimeWindow exactly when its time lies outside the
  window; an update by a booker who holds an upcoming appointment is answered with
  InvalidTimeWindow exactly when the payload has a time and that time lies outside the
  window. On both paths 08:00 is accepted by the check, 20:00 and 07:59 are rejected.
  The scheduler panel (create, update, delete) and the admin's update never answer
  InvalidTimeWindow.
\<close>

theorem C3_time_window:
  "((\<exists>es. AdminPanelViewSet_create_appointment db clk d = Inl es \<and> InvalidTimeWindow \<in> set es)
      \<longleftrightarrow> \<not> (time 8 0 \<le> acd_time d \<and> acd_time d < time 20 0))
   \<and> (get_booker db ru = Inr b \<and> first (active_appointments db clk b) = Some a \<longrightarrow>
        ((\<exists>es. BookerPanelViewSet_update_my_appointment db clk ru u = Inl es
               \<and> InvalidTimeWindow \<in> set es)
         \<longleftrightarrow> (\<exists>t. upd_time u = Some t \<and> \<not> (time 8 0 \<le> t \<and> t < time 20 0))))
   \<and> AppointmentCreateSerializer_validate_time (time 8 0) = Inr (time 8 0)
   \<and> AppointmentCreateSerializer_validate_time (time 20 0) = Inl [InvalidTimeWindow]
   \<and> AppointmentCreateSerializer_validate_time (time 7 59) = Inl [InvalidTimeWindow]
   \<and> BookerPanelUpdateAppointmentProfileSerializer_validate_time (time 8 0) = Inr (time 8 0)
   \<and> BookerPanelUpdateAppointmentProfileSerializer_validate_time (time 20 0) = Inl [InvalidTimeWindow]
   \<and> BookerPanelUpdateAppointmentProfileSerializer_validate_time (time 7 59) = Inl [InvalidTimeWindow]
   \<and> (\<forall>ru' req es. SchedulerPanelViewSet_manage_appointments db clk ru' req = Inl es
         \<longrightarrow> InvalidTimeWindow \<notin> set es)
   \<and> (\<forall>pk u' es. AdminPanelViewSet_appointment_detail_put db pk u' = Inl es
         \<longrightarrow> InvalidTimeWindow \<notin> set es)"
  using admin_create_window_error [of db clk d] booker_update_window_error [of db ru b clk a u]
    manage_appointments_no_window_error [of db clk] admin_put_no_window_error [of db]
  by (simp add: validate_time_boundaries)

theorem C3_time_window_witness:
  "get_booker db1 11 = Inr john
   \<and> first (active_appointments db1 noon john) = Some booked
   \<and> (\<exists>es. BookerPanelViewSet_update_my_appointment db1 noon 11
              \<lparr>upd_date = None, upd_time = Some (time 20 0), upd_note = None\<rparr> = Inl es
          \<and> InvalidTimeWindow \<in> set es)
   \<and> (\<exists>es. AdminPanelViewSet_create_appointment db1 noon
              \<lparr>acd_booker = 1, acd_date = (2025, 6, 11), acd_time = time 7 59,
               acd_scheduler = 1, acd_note = None\<rparr> = Inl es
          \<and> InvalidTimeWindow \<in> set es)
   \<and> SchedulerPanelViewSet_manage_appointments db1 noon 10 action_other = Inl [InvalidAction]
   \<and> AdminPanelViewSet_appointment_detail_put db1 7
        \<lparr>upd_date = None, upd_time = Some (time 7 59), upd_note = None\<rparr> = Inl [Http404]"
proof -
  have b: "get_booker db1 11 = Inr john"
    by (simp add: get_booker_def get_object_or_404_def example_defs)
  have a: "first (active_appointments db1 noon john) = Some booked"
    by (simp add: active_appointments_def Meta_ordering_def upcoming_def first_def example_defs)
  have m: "SchedulerPanelViewSet_manage_appointments db1 noon 10 action_other = Inl [InvalidAction]"
    by (simp add: SchedulerPanelViewSet_manage_appointments_def get_scheduler_def
        get_object_or_404_def example_defs)
  have p: "AdminPanelViewSet_appointment_detail_put db1 7
        \<lparr>upd_date = None, upd_time = Some (time 7 59), upd_note = None\<rparr> = Inl [Http404]"
    by (simp add: AdminPanelViewSet_appointment_detail_put_def get_object_or_404_def example_defs)
  have t: "\<not> (time 8 0 \<le> time 20 0 \<and> time 20 0 < time 20 0)"
    "\<not> (time 8 0 \<le> time 7 59 \<and> time 7 59 < time 20 0)"
    by (simp_all add: time_def)
  note T = C3_time_window [where db = db1 and clk = noon and ru = 11 and b = john and a = booked
      and u = "\<lparr>upd_date = None, upd_time = Some (time 20 0), upd_note = None\<rparr>"
      and d = "\<lparr>acd_booker = 1, acd_date = (2025, 6, 11), acd_time = time 7 59,
               acd_scheduler = 1, acd_note = None\<rparr>"]
  from T a b t have
    "\<exists>es. BookerPanelViewSet_update_my_appointment db1 noon 11
              \<lparr>upd_date = None, upd_time = Some (time 20 0), upd_note = None\<rparr> = Inl es
          \<and> InvalidTimeWindow \<in> set es"
    by simp
  moreover from T t have
    "\<exists>es. AdminPanelViewSet_create_appointment db1 noon
              \<lparr>acd_booker = 1, acd_date = (2025, 6, 11), acd_time = time 7 59,
               acd_scheduler = 1, acd_note = None\<rparr> = Inl es
          \<and> InvalidTimeWindow \<in> set es"
    by simp
  ultimately show ?thesis using a b m p by simp
qed

section \<open>C5: one upcoming appointment per booker on self-reservation\<close>

lemma exists_active_appointments:
  "exists (active_appointments db clk b)
   \<longleftrightarrow> (\<exists>a \<in> set (Appointment_objects db). a_booker a = Some (b_id b) \<and> upcoming clk a)"
proof -
  have "exists (active_appointments db clk b)
        \<longleftrightarrow> set (active_appointments db clk b) \<noteq> {}"
    unfolding exists_def by simp
  also have "\<dots> \<longleftrightarrow> (\<exists>a \<in> set (Appointment_objects db). a_booker a = Some (b_id b) \<and> upcoming clk a)"
    unfolding active_appointments_def Meta_ordering_def by auto
  finally show ?thesis .
qed

lemma reserve_appointment_active_error:
  assumes "get_booker db ru = Inr b"
  shows "(\<exists>es. BookerPanelViewSet_reserve_appointment db clk ru d = Inl es
               \<and> ActiveAppointmentExists \<in> set es)
         \<longleftrightarrow> exists (active_appointments db clk b)"
    and "exists (active_appointments db clk b)
         \<Longrightarrow> BookerPanelViewSet_reserve_appointment db clk ru d = Inl [ActiveAppointmentExists]"
  using assms
  unfolding BookerPanelViewSet_reserve_appointment_def BookerAppointmentCreateSerializer_is_valid_def UniqueTogetherValidator_def
    BookerAppointmentCreateSerializer_validate_def PrimaryKeyRelatedField_def
    Appointment_objects_create_def Let_def
  by (auto split: sum.splits list.splits if_splits)

lemma admin_create_no_active_error:
  "AdminPanelViewSet_create_appointment db clk d = Inl es \<Longrightarrow> ActiveAppointmentExists \<notin> set es"
  unfolding AdminPanelViewSet_create_appointment_def AppointmentCreateSerializer_is_valid_def UniqueTogetherValidator_def
    AppointmentCreateSerializer_validate_time_def AppointmentCreateSerializer_validate_def
    Appointment_objects_create_def PrimaryKeyRelatedField_def Let_def
  by (auto split: sum.splits list.splits if_splits simp add: errors_of_def)

lemma manage_appointments_no_active_error:
  "SchedulerPanelViewSet_manage_appointments db clk ru req = Inl es
   \<Longrightarrow> ActiveAppointmentExists \<notin> set es"
  unfolding SchedulerPanelViewSet_manage_appointments_def manage_appointments_create_def
    manage_appointments_update_def manage_appointments_delete_def get_scheduler_def
    get_object_or_404_def SchedulerPanelAppointmentCreateSerializer_is_valid_def
    SchedulerPanelAppointmentUpdateSerializer_is_valid_def
    SchedulerPanelAppointmentCreateSerializer_validate_def
    SchedulerPanelAppointmentUpdateSerializer_validate_def resolve_booker_def
    PrimaryKeyRelatedField_def Appointment_objects_create_def Appointment_save_def Let_def
  by (auto split: sum.splits option.splits list.splits manage_request.splits if_splits prod.splits)

text \<open>
  C5. For a caller with a booker profile, self-reservation is answered with
  ActiveAppointmentExists exactly when the booker holds an appointment that is upcoming at
  the time of the request (its date is after today, or it is today and its time is after
  now); in particular, once all the booker's appointments are past the rule no longer
  blocks. Creation by the admin or through the scheduler panel is never answered with
  ActiveAppointmentExists.
\<close>

theorem C5_one_active_appointment:
  "(get_booker db ru = Inr b \<longrightarrow>
      ((BookerPanelViewSet_reserve_appointment db clk ru d = Inl [ActiveAppointmentExists])
         \<longleftrightarrow> (\<exists>a \<in> set (Appointment_objects db). a_booker a = Some (b_id b)
                \<and> (a_date a > today clk \<or> (a_date a = today clk \<and> a_time a > now_time clk))))
      \<and> ((\<forall>a \<in> set (Appointment_objects db). a_booker a = Some (b_id b)
                \<longrightarrow> \<not> (a_date a > today clk \<or> (a_date a = today clk \<and> a_time a > now_time clk)))
           \<longrightarrow> (\<forall>es. BookerPanelViewSet_reserve_appointment db clk ru d = Inl es
                   \<longrightarrow> ActiveAppointmentExists \<notin> set es)))
   \<and> (\<forall>d' es. AdminPanelViewSet_create_appointment db clk d' = Inl es
          \<longrightarrow> ActiveAppointmentExists \<notin> set es)
   \<and> (\<forall>ru' req es. SchedulerPanelViewSet_manage_appointments db clk ru' req = Inl es
          \<longrightarrow> ActiveAppointmentExists \<notin> set es)"
proof (intro impI conjI allI)
  assume b: "get_booker db ru = Inr b"
  let ?held = "\<exists>a \<in> set (Appointment_objects db). a_booker a = Some (b_id b)
               \<and> (a_date a > today clk \<or> (a_date a = today clk \<and> a_time a > now_time clk))"
  have held: "exists (active_appointments db clk b) \<longleftrightarrow> ?held"
    unfolding exists_active_appointments upcoming_def ..
  show "(BookerPanelViewSet_reserve_appointment db clk ru d = Inl [ActiveAppointmentExists])
        \<longleftrightarrow> ?held"
    using reserve_appointment_active_error [OF b, of clk d] held by auto
  fix es
  assume "\<forall>a \<in> set (Appointment_objects db). a_booker a = Some (b_id b)
               \<longrightarrow> \<not> (a_date a > today clk \<or> (a_date a = today clk \<and> a_time a > now_time clk))"
    and "BookerPanelViewSet_reserve_appointment db clk ru d = Inl es"
  then show "ActiveAppointmentExists \<notin> set es"
    using reserve_appointment_active_error(1) [OF b, of clk d] held by blast
next
  fix d' es
  assume "AdminPanelViewSet_create_appointment db clk d' = Inl es"
  then show "ActiveAppointmentExists \<notin> set es" by (rule admin_create_no_active_error)
next
  fix ru' req es
  assume "SchedulerPanelViewSet_manage_appointments db clk ru' req = Inl es"
  then show "ActiveAppointmentExists \<notin> set es" by (rule manage_appointments_no_active_error)
qed

theorem C5_one_active_appointment_witness:
  "get_booker db1 11 = Inr john
   \<and> booked \<in> set (Appointment_objects db1) \<and> a_booker booked = Some (b_id john)
   \<and> a_date booked > today noon
   \<and> BookerPanelViewSet_reserve_appointment db1 noon 11
        \<lparr>bc_date = (2025, 6, 12), bc_time = (10, 0, 0, 0), bc_scheduler = 1, bc_note = None\<rparr>
       = Inl [ActiveAppointmentExists]
   \<and> AdminPanelViewSet_create_appointment db1 noon
        \<lparr>acd_booker = 1, acd_date = (2025, 6, 12), acd_time = (10, 0, 0, 0),
         acd_scheduler = 1, acd_note = None\<rparr>
       = Inr (db1\<lparr>Appointment_objects :=
                    [booked, \<lparr>a_id = 2, a_scheduler = 1, a_booker = Some 1, a_booker_name = [],
                              a_date = (2025, 6, 12), a_time = (10, 0, 0, 0), a_note = None,
                              a_created_at = 240000001\<rparr>],
                  Appointment_next_id := 3\<rparr>,
              \<lparr>a_id = 2, a_scheduler = 1, a_booker = Some 1, a_booker_name = [],
               a_date = (2025, 6, 12), a_time = (10, 0, 0, 0), a_note = None,
               a_created_at = 240000001\<rparr>)"
proof -
  have b: "get_booker db1 11 = Inr john"
    by (simp add: get_booker_def get_object_or_404_def example_defs)
  have h: "booked \<in> set (Appointment_objects db1)" "a_booker booked = Some (b_id john)"
    "a_date booked > today noon"
    by (simp_all add: example_defs)
  from h have "\<exists>a \<in> set (Appointment_objects db1). a_booker a = Some (b_id john)
        \<and> (a_date a > today noon \<or> (a_date a = today noon \<and> a_time a > now_time noon))"
    by blast
  with b C5_one_active_appointment [of db1 11 john noon
      "\<lparr>bc_date = (2025, 6, 12), bc_time = (10, 0, 0, 0), bc_scheduler = 1, bc_note = None\<rparr>"]
  have r: "BookerPanelViewSet_reserve_appointment db1 noon 11
        \<lparr>bc_date = (2025, 6, 12), bc_time = (10, 0, 0, 0), bc_scheduler = 1, bc_note = None\<rparr>
       = Inl [ActiveAppointmentExists]"
    by blast
  have c: "AdminPanelViewSet_create_appointment db1 noon
        \<lparr>acd_booker = 1, acd_date = (2025, 6, 12), acd_time = (10, 0, 0, 0),
         acd_scheduler = 1, acd_note = None\<rparr>
       = Inr (db1\<lparr>Appointment_objects :=
                    [booked, \<lparr>a_id = 2, a_scheduler = 1, a_booker = Some 1, a_booker_name = [],
                              a_date = (2025, 6, 12), a_time = (10, 0, 0, 0), a_note = None,
                              a_created_at = 240000001\<rparr>],
                  Appointment_next_id := 3\<rparr>,
              \<lparr>a_id = 2, a_scheduler = 1, a_booker = Some 1, a_booker_name = [],
               a_date = (2025, 6, 12), a_time = (10, 0, 0, 0), a_note = None,
               a_created_at = 240000001\<rparr>)"
    by (simp add: AdminPanelViewSet_create_appointment_def AppointmentCreateSerializer_is_valid_def UniqueTogetherValidator_def
        AppointmentCreateSerializer_validate_time_def AppointmentCreateSerializer_validate_def
        PrimaryKeyRelatedField_def Appointment_objects_create_def exists_def slot_filter_def
        slot_def time_def Let_def example_defs)
  from b h r c show ?thesis by simp
qed

section \<open>C8: adding a scheduler to the roster\<close>

lemma filter_unique_key:
  "distinct (map f xs) \<Longrightarrow> x \<in> set xs \<Longrightarrow> P x
   \<Longrightarrow> filter (\<lambda>y. f y = f x \<and> P y) xs = [x]"
proof (induction xs)
  case Nil
  then show ?case by simp
next
  case (Cons y ys)
  show ?case
  proof (cases "y = x")
    case True
    with Cons.prems have "\<forall>z \<in> set ys. f z \<noteq> f x" by (auto simp add: image_iff)
    then have "filter (\<lambda>y. f y = f x \<and> P y) ys = []" by (simp add: filter_empty_conv)
    with True Cons.prems show ?thesis by simp
  next
    case False
    with Cons.prems have "x \<in> set ys" and "f y \<noteq> f x" by (auto simp add: image_iff)
    with Cons show ?thesis by simp
  qed
qed

lemma get_booker_booker_schedulers_add [simp]:
  "get_booker (booker_schedulers_add db b s) ru = get_booker db ru"
  by (simp add: get_booker_def booker_schedulers_add_def)

lemma Scheduler_objects_booker_schedulers_add [simp]:
  "Scheduler_objects (booker_schedulers_add db b s) = Scheduler_objects db"
  by (simp add: booker_schedulers_add_def)

lemma is_valid_booker_schedulers_add [simp]:
  "AddSchedulerSerializer_is_valid (booker_schedulers_add db b s) code
   = AddSchedulerSerializer_is_valid db code"
  by (simp add: AddSchedulerSerializer_is_valid_def AddSchedulerSerializer_validate_scheduler_code_def
      split: sum.splits)

lemma booker_schedulers_add_idem [simp]:
  "booker_schedulers_add (booker_schedulers_add db b s) b s = booker_schedulers_add db b s"
  by (simp add: booker_schedulers_add_def)

lemma count_list_distinct: "distinct xs \<Longrightarrow> x \<in> set xs \<Longrightarrow> count_list xs x = 1"
  by (induction xs) auto

lemma booker_schedulers_add_count:
  "distinct (Booker_schedulers db)
   \<Longrightarrow> count_list (Booker_schedulers (booker_schedulers_add db b s)) (b_id b, s_id s) = 1"
  by (simp add: booker_schedulers_add_def count_list_distinct)

lemma add_scheduler_not_found:
  assumes "get_booker db ru = Inr b" and "CharField 100 code = Inr code"
  shows "BookerPanelViewSet_add_scheduler db ru code = Inl [SchedulerNotFound]
         \<longleftrightarrow> \<not> (\<exists>s \<in> set (Scheduler_objects db). s_phone s = code \<and> s_is_public_search s)"
proof (cases "filter (\<lambda>s. s_phone s = code \<and> s_is_public_search s) (Scheduler_objects db)")
  case Nil
  then have "\<not> (\<exists>s \<in> set (Scheduler_objects db). s_phone s = code \<and> s_is_public_search s)"
    by (simp add: filter_empty_conv)
  with Nil assms show ?thesis
    by (simp add: BookerPanelViewSet_add_scheduler_def AddSchedulerSerializer_is_valid_def
        AddSchedulerSerializer_validate_scheduler_code_def)
next
  case (Cons x xs)
  then have "x \<in> set (filter (\<lambda>s. s_phone s = code \<and> s_is_public_search s) (Scheduler_objects db))"
    by simp
  then have "\<exists>s \<in> set (Scheduler_objects db). s_phone s = code \<and> s_is_public_search s"
    by auto
  with Cons assms show ?thesis
    by (simp add: BookerPanelViewSet_add_scheduler_def AddSchedulerSerializer_is_valid_def
        AddSchedulerSerializer_validate_scheduler_code_def AddSchedulerSerializer_save_def
        split: list.splits)
qed

lemma add_scheduler_found:
  assumes "get_booker db ru = Inr b" and "CharField 100 (s_phone s) = Inr (s_phone s)"
    and "distinct (map s_phone (Scheduler_objects db))"
    and "s \<in> set (Scheduler_objects db)" and "s_is_public_search s"
  shows "BookerPanelViewSet_add_scheduler db ru (s_phone s) = Inr (booker_schedulers_add db b s, s)"
  using assms(1,2) filter_unique_key [OF assms(3,4), of s_is_public_search, OF assms(5)]
  unfolding BookerPanelViewSet_add_scheduler_def AddSchedulerSerializer_is_valid_def
    AddSchedulerSerializer_validate_scheduler_code_def AddSchedulerSerializer_save_def
  by simp

text \<open>
  C8. Let the caller have a booker profile and let the code be a well-formed field value
  (not blank, at most 100 characters). The request fails with SchedulerNotFound exactly
  when no scheduler has this phone with public search enabled. When a publicly searchable
  scheduler has this phone (phones are unique), the request succeeds and returns that
  scheduler; repeating it succeeds again, returns the same scheduler and leaves the
  store as the first request left it; the join table, which holds a pair at most once,
  then holds the pair of this booker and this scheduler exactly once; and when the pair
  was there before the first request, that request already leaves the store unchanged.
\<close>

theorem C8_add_to_roster_idempotent:
  "get_booker db ru = Inr b \<and> CharField 100 code = Inr code \<longrightarrow>
     ((BookerPanelViewSet_add_scheduler db ru code = Inl [SchedulerNotFound])
        \<longleftrightarrow> \<not> (\<exists>s \<in> set (Scheduler_objects db). s_phone s = code \<and> s_is_public_search s))
     \<and> (\<forall>s. s \<in> set (Scheduler_objects db) \<and> s_phone s = code \<and> s_is_public_search s
              \<and> distinct (map s_phone (Scheduler_objects db))
              \<and> distinct (Booker_schedulers db) \<longrightarrow>
           (\<exists>db'. BookerPanelViewSet_add_scheduler db ru code = Inr (db', s)
                 \<and> BookerPanelViewSet_add_scheduler db' ru code = Inr (db', s)
                 \<and> count_list (Booker_schedulers db') (b_id b, s_id s) = 1
                 \<and> set (Booker_schedulers db') = insert (b_id b, s_id s) (set (Booker_schedulers db))
                 \<and> ((b_id b, s_id s) \<in> set (Booker_schedulers db) \<longrightarrow> db' = db)))"
proof (intro impI conjI allI)
  assume h: "get_booker db ru = Inr b \<and> CharField 100 code = Inr code"
  then show "(BookerPanelViewSet_add_scheduler db ru code = Inl [SchedulerNotFound])
        \<longleftrightarrow> \<not> (\<exists>s \<in> set (Scheduler_objects db). s_phone s = code \<and> s_is_public_search s)"
    using add_scheduler_not_found by blast
  fix s
  assume s: "s \<in> set (Scheduler_objects db) \<and> s_phone s = code \<and> s_is_public_search s
              \<and> distinct (map s_phone (Scheduler_objects db))
              \<and> distinct (Booker_schedulers db)"
  let ?db' = "booker_schedulers_add db b s"
  from h s have first: "BookerPanelViewSet_add_scheduler db ru code = Inr (?db', s)"
    using add_scheduler_found [of db ru b s] by blast
  have "get_booker ?db' ru = Inr b" using h by simp
  moreover have "distinct (map s_phone (Scheduler_objects ?db'))" "s \<in> set (Scheduler_objects ?db')"
    using s by (simp_all add: booker_schedulers_add_def)
  ultimately have "BookerPanelViewSet_add_scheduler ?db' ru (s_phone s)
                   = Inr (booker_schedulers_add ?db' b s, s)"
    using h s by (intro add_scheduler_found) auto
  with s have second: "BookerPanelViewSet_add_scheduler ?db' ru code = Inr (?db', s)" by simp
  have count: "count_list (Booker_schedulers ?db') (b_id b, s_id s) = 1"
    using s by (simp add: booker_schedulers_add_count)
  have members: "set (Booker_schedulers ?db') = insert (b_id b, s_id s) (set (Booker_schedulers db))"
    by (auto simp add: booker_schedulers_add_def)
  have noop: "(b_id b, s_id s) \<in> set (Booker_schedulers db) \<longrightarrow> ?db' = db"
    by (simp add: booker_schedulers_add_def)
  from first second count members noop
  show "\<exists>db'. BookerPanelViewSet_add_scheduler db ru code = Inr (db', s)
                 \<and> BookerPanelViewSet_add_scheduler db' ru code = Inr (db', s)
                 \<and> count_list (Booker_schedulers db') (b_id b, s_id s) = 1
                 \<and> set (Booker_schedulers db') = insert (b_id b, s_id s) (set (Booker_schedulers db))
                 \<and> ((b_id b, s_id s) \<in> set (Booker_schedulers db) \<longrightarrow> db' = db)"
    by blast
qed

theorem C8_add_to_roster_idempotent_witness:
  "get_booker db0 11 = Inr john
   \<and> CharField 100 ''09987654321'' = Inr ''09987654321''
   \<and> sara \<in> set (Scheduler_objects db0) \<and> s_phone sara = ''09987654321''
   \<and> s_is_public_search sara
   \<and> distinct (map s_phone (Scheduler_objects db0)) \<and> distinct (Booker_schedulers db0)
   \<and> (\<exists>db'. BookerPanelViewSet_add_scheduler db0 11 ''09987654321'' = Inr (db', sara)
          \<and> BookerPanelViewSet_add_scheduler db' 11 ''09987654321'' = Inr (db', sara)
          \<and> count_list (Booker_schedulers db') (1, 1) = 1)
   \<and> BookerPanelViewSet_add_scheduler db0 11 ''09111111111'' = Inl [SchedulerNotFound]"
proof -
  have b: "get_booker db0 11 = Inr john"
    by (simp add: get_booker_def get_object_or_404_def example_defs)
  have c: "CharField 100 ''09987654321'' = Inr ''09987654321''"
    "CharField 100 ''09111111111'' = Inr ''09111111111''"
    by (simp_all add: CharField_def)
  have s: "sara \<in> set (Scheduler_objects db0)" "s_phone sara = ''09987654321''"
    "s_is_public_search sara" "distinct (map s_phone (Scheduler_objects db0))"
    "distinct (Booker_schedulers db0)"
    by (simp_all add: example_defs)
  have n: "\<not> (\<exists>s \<in> set (Scheduler_objects db0). s_phone s = ''09111111111'' \<and> s_is_public_search s)"
    by (simp add: example_defs)
  have ids: "b_id john = 1" "s_id sara = 1" by (simp_all add: example_defs)
  from C8_add_to_roster_idempotent [of db0 11 john "''09987654321''"] b c(1) s
  have "\<exists>db'. BookerPanelViewSet_add_scheduler db0 11 ''09987654321'' = Inr (db', sara)
          \<and> BookerPanelViewSet_add_scheduler db' 11 ''09987654321'' = Inr (db', sara)
          \<and> count_list (Booker_schedulers db') (b_id john, s_id sara) = 1"
    by blast
  moreover from C8_add_to_roster_idempotent [of db0 11 john "''09111111111''"] b c(2) n
  have "BookerPanelViewSet_add_scheduler db0 11 ''09111111111'' = Inl [SchedulerNotFound]"
    by blast
  ultimately show ?thesis using b c s ids by simp
qed

section \<open>C10: what a booker's update may change\<close>

lemma ModelSerializer_update_frame [simp]:
  "a_id (ModelSerializer_update a u) = a_id a"
  "a_scheduler (ModelSerializer_update a u) = a_scheduler a"
  "a_booker (ModelSerializer_update a u) = a_booker a"
  "a_booker_name (ModelSerializer_update a u) = a_booker_name a"
  "a_created_at (ModelSerializer_update a u) = a_created_at a"
  by (simp_all add: ModelSerializer_update_def)

lemma update_my_appointment_success:
  assumes "BookerPanelViewSet_update_my_appointment db clk ru u = Inr (db', a')"
  shows "\<exists>b a. get_booker db ru = Inr b \<and> first (active_appointments db clk b) = Some a
          \<and> a' = ModelSerializer_update a u
          \<and> db' = db\<lparr>Appointment_objects :=
                        map (\<lambda>x. if a_id x = a_id a then a' else x) (Appointment_objects db)\<rparr>"
proof -
  from assms obtain b where b: "get_booker db ru = Inr b"
    by (auto simp add: BookerPanelViewSet_update_my_appointment_def split: sum.splits)
  with assms obtain a where a: "first (active_appointments db clk b) = Some a"
    by (auto simp add: BookerPanelViewSet_update_my_appointment_def split: option.splits)
  with assms b obtain d where
    d: "BookerPanelUpdateAppointmentProfileSerializer_is_valid db clk a u = Inr d"
    by (auto simp add: BookerPanelViewSet_update_my_appointment_def split: sum.splits)
  then have "d = u"
    by (auto simp add: BookerPanelUpdateAppointmentProfileSerializer_is_valid_def
        BookerPanelUpdateAppointmentProfileSerializer_validate_def Let_def split: if_splits)
  with assms a b d show ?thesis
    by (auto simp add: BookerPanelViewSet_update_my_appointment_def Appointment_save_def Let_def
        split: if_splits)
qed

lemma first_in_set: "first xs = Some x \<Longrightarrow> x \<in> set xs"
  by (cases xs) (simp_all add: first_def)

lemma active_appointments_set:
  "set (active_appointments db clk b)
   = {a \<in> set (Appointment_objects db). a_booker a = Some (b_id b) \<and> upcoming clk a}"
  by (auto simp add: active_appointments_def Meta_ordering_def)

text \<open>
  C10. When an update by a booker succeeds, the appointment that is updated is one of the
  booker's own upcoming appointments; its new version differs from the old one in date,
  time and note at most (primary key, scheduler, linked booker, free-text booker name and
  creation time are the old ones); every row of the appointment table with another primary
  key is the row it was, in the same place; and no other table changes.
\<close>

theorem C10_booker_update_frame:
  "BookerPanelViewSet_update_my_appointment db clk ru u = Inr (db', a') \<longrightarrow>
     (\<exists>b a. get_booker db ru = Inr b
        \<and> a \<in> set (Appointment_objects db) \<and> a_booker a = Some (b_id b) \<and> upcoming clk a
        \<and> a' = a\<lparr>a_date := a_date a', a_time := a_time a', a_note := a_note a'\<rparr>
        \<and> a_id a' = a_id a \<and> a_scheduler a' = a_scheduler a \<and> a_booker a' = a_booker a
        \<and> a_booker_name a' = a_booker_name a \<and> a_created_at a' = a_created_at a
        \<and> length (Appointment_objects db') = length (Appointment_objects db)
        \<and> (\<forall>i < length (Appointment_objects db).
              Appointment_objects db' ! i
              = (if a_id (Appointment_objects db ! i) = a_id a then a'
                 else Appointment_objects db ! i))
        \<and> db' = db\<lparr>Appointment_objects := Appointment_objects db'\<rparr>)"
proof
  assume "BookerPanelViewSet_update_my_appointment db clk ru u = Inr (db', a')"
  from update_my_appointment_success [OF this] obtain b a where
    b: "get_booker db ru = Inr b" and a: "first (active_appointments db clk b) = Some a"
    and a': "a' = ModelSerializer_update a u"
    and db': "db' = db\<lparr>Appointment_objects :=
                        map (\<lambda>x. if a_id x = a_id a then a' else x) (Appointment_objects db)\<rparr>"
    by blast
  from a have "a \<in> set (active_appointments db clk b)" by (rule first_in_set)
  then have own: "a \<in> set (Appointment_objects db)" "a_booker a = Some (b_id b)" "upcoming clk a"
    by (simp_all add: active_appointments_set)
  have frame: "a' = a\<lparr>a_date := a_date a', a_time := a_time a', a_note := a_note a'\<rparr>"
    "a_id a' = a_id a" "a_scheduler a' = a_scheduler a" "a_booker a' = a_booker a"
    "a_booker_name a' = a_booker_name a" "a_created_at a' = a_created_at a"
    unfolding a' by (simp_all add: ModelSerializer_update_def)
  have rows: "length (Appointment_objects db') = length (Appointment_objects db)"
    "\<forall>i < length (Appointment_objects db).
        Appointment_objects db' ! i
        = (if a_id (Appointment_objects db ! i) = a_id a then a' else Appointment_objects db ! i)"
    "db' = db\<lparr>Appointment_objects := Appointment_objects db'\<rparr>"
    unfolding db' by simp_all
  from b own frame rows
  show "\<exists>b a. get_booker db ru = Inr b
        \<and> a \<in> set (Appointment_objects db) \<and> a_booker a = Some (b_id b) \<and> upcoming clk a
        \<and> a' = a\<lparr>a_date := a_date a', a_time := a_time a', a_note := a_note a'\<rparr>
        \<and> a_id a' = a_id a \<and> a_scheduler a' = a_scheduler a \<and> a_booker a' = a_booker a
        \<and> a_booker_name a' = a_booker_name a \<and> a_created_at a' = a_created_at a
        \<and> length (Appointment_objects db') = length (Appointment_objects db)
        \<and> (\<forall>i < length (Appointment_objects db).
              Appointment_objects db' ! i
              = (if a_id (Appointment_objects db ! i) = a_id a then a' else Appointment_objects db ! i))
        \<and> db' = db\<lparr>Appointment_objects := Appointment_objects db'\<rparr>"
    by blast
qed

theorem C10_booker_update_frame_witness:
  "BookerPanelViewSet_update_my_appointment db2 noon 11
     \<lparr>upd_date = Some (2025, 6, 11), upd_time = Some (15, 30, 0, 0),
      upd_note = Some (Some ''after lunch'')\<rparr>
   = Inr (db2\<lparr>Appointment_objects := [moved, later]\<rparr>, moved)
   \<and> (\<exists>a. a \<in> set (Appointment_objects db2)
          \<and> a_scheduler moved = a_scheduler a \<and> a_booker moved = a_booker a
          \<and> (if a_id later = a_id a then moved else later) = later)"
proof -
  have run: "BookerPanelViewSet_update_my_appointment db2 noon 11
     \<lparr>upd_date = Some (2025, 6, 11), upd_time = Some (15, 30, 0, 0),
      upd_note = Some (Some ''after lunch'')\<rparr>
   = Inr (db2\<lparr>Appointment_objects := [moved, later]\<rparr>, moved)"
    by (simp add: BookerPanelViewSet_update_my_appointment_def get_booker_def get_object_or_404_def
        active_appointments_def Meta_ordering_def upcoming_def first_def
        BookerPanelUpdateAppointmentProfileSerializer_is_valid_def
        BookerPanelUpdateAppointmentProfileSerializer_validate_date_def
        BookerPanelUpdateAppointmentProfileSerializer_validate_time_def
        BookerPanelUpdateAppointmentProfileSerializer_validate_def
        ModelSerializer_update_def Appointment_save_def exists_def slot_filter_def slot_def
        data_get_date_def data_get_time_def errors_of_def time_def Let_def example_defs)
  from C10_booker_update_frame [of db2 noon 11 _ "db2\<lparr>Appointment_objects := [moved, later]\<rparr>" moved] run
  obtain a where a: "a \<in> set (Appointment_objects db2)" "a_scheduler moved = a_scheduler a"
    "a_booker moved = a_booker a" "a_id moved = a_id a"
    by blast
  have "a_id later \<noteq> a_id moved" by (simp add: example_defs)
  with a have "(if a_id later = a_id a then moved else later) = later" by simp
  with run a show ?thesis by blast
qed

section \<open>C7: the booker's identity on the scheduler panel\<close>

lemma create_missing_identity:
  assumes "get_scheduler db ru = Inr s"
  shows "SchedulerPanelViewSet_manage_appointments db clk ru (action_create d)
           = Inl [MissingBookerIdentity]
         \<longleftrightarrow> sc_booker d = None \<and> sc_booker_name d \<in> {None, Some []}"
  using assms
  unfolding SchedulerPanelViewSet_manage_appointments_def manage_appointments_create_def
    SchedulerPanelAppointmentCreateSerializer_is_valid_def
    SchedulerPanelAppointmentCreateSerializer_validate_def resolve_booker_def
    PrimaryKeyRelatedField_def Appointment_objects_create_def Let_def
  by (auto split: sum.splits option.splits list.splits if_splits)

lemma update_missing_identity:
  assumes "get_scheduler db ru = Inr s"
    and "get_object_or_404
           (filter (\<lambda>a. Some (a_id a) = i \<and> a_scheduler a = s_id s) (Appointment_objects db))
         = Inr a"
  shows "SchedulerPanelViewSet_manage_appointments db clk ru (action_update i u)
           = Inl [MissingBookerIdentity]
         \<longleftrightarrow> su_booker u \<in> {None, Some None} \<and> su_booker_name u \<in> {None, Some []}"
  using assms
  unfolding SchedulerPanelViewSet_manage_appointments_def manage_appointments_update_def
    SchedulerPanelAppointmentUpdateSerializer_is_valid_def
    SchedulerPanelAppointmentUpdateSerializer_validate_def resolve_booker_def
    PrimaryKeyRelatedField_def Appointment_save_def Let_def
  by (auto split: sum.splits option.splits list.splits if_splits)

lemma get_display_name_cases:
  "SchedulerPanelAppointmentCreateSerializer_get_display_name (Some b) n = b_name b @ '' '' @ b_family b"
  "n \<noteq> [] \<Longrightarrow> SchedulerPanelAppointmentCreateSerializer_get_display_name None n = n"
  "SchedulerPanelAppointmentCreateSerializer_get_display_name None [] = ''Unnamed''"
  "SchedulerPanelAppointmentUpdateSerializer_get_display_name (Some b) n = b_name b @ '' '' @ b_family b"
  "n \<noteq> [] \<Longrightarrow> SchedulerPanelAppointmentUpdateSerializer_get_display_name None n = n"
  "SchedulerPanelAppointmentUpdateSerializer_get_display_name None [] = ''Unnamed''"
  by (simp_all add: SchedulerPanelAppointmentCreateSerializer_get_display_name_def
      SchedulerPanelAppointmentUpdateSerializer_get_display_name_def)

lemma get_object_or_404_Inr: "get_object_or_404 qs = Inr x \<longleftrightarrow> qs = [x]"
  by (simp add: get_object_or_404_def split: list.splits)

lemma filter_singleton_member: "filter P xs = [x] \<Longrightarrow> x \<in> set xs \<and> P x"
proof -
  assume "filter P xs = [x]"
  then have "x \<in> set (filter P xs)" by (metis list.set_intros(1))
  then show ?thesis by simp
qed

lemma PrimaryKeyRelatedField_first:
  "PrimaryKeyRelatedField qs pk k = Inr x \<Longrightarrow> first (filter (\<lambda>y. pk y = k) qs) = Some x"
  by (simp add: PrimaryKeyRelatedField_def first_def split: list.splits)

lemma PrimaryKeyRelatedField_member:
  "PrimaryKeyRelatedField qs pk k = Inr x \<Longrightarrow> x \<in> set qs \<and> pk x = k"
proof -
  assume "PrimaryKeyRelatedField qs pk k = Inr x"
  then obtain xs where "filter (\<lambda>y. pk y = k) qs = x # xs"
    by (auto simp add: PrimaryKeyRelatedField_def split: list.splits)
  then have "x \<in> set (filter (\<lambda>y. pk y = k) qs)" by simp
  then show ?thesis by simp
qed

lemma create_display_name:
  assumes "SchedulerPanelViewSet_manage_appointments db clk ru (action_create d) = Inr (db', Created r)"
  shows "case sc_booker d of
           Some pk \<Rightarrow> \<exists>b \<in> set (Booker_objects db). b_id b = pk
                        \<and> r_display_name r = b_name b @ '' '' @ b_family b
         | None \<Rightarrow> \<exists>n. sc_booker_name d = Some n \<and> n \<noteq> [] \<and> r_display_name r = n"
proof -
  from assms obtain s where s: "get_scheduler db ru = Inr s"
    by (auto simp add: SchedulerPanelViewSet_manage_appointments_def split: sum.splits)
  with assms have m: "manage_appointments_create db clk s d = Inr (db', Created r)"
    by (simp add: SchedulerPanelViewSet_manage_appointments_def)
  show ?thesis
  proof (cases "sc_booker d")
    case None
    with m show ?thesis
      unfolding manage_appointments_create_def
        SchedulerPanelAppointmentCreateSerializer_is_valid_def
        SchedulerPanelAppointmentCreateSerializer_validate_def resolve_booker_def
        Appointment_objects_create_def Let_def SchedulerPanelAppointmentCreateSerializer_data_def
        obj_booker_def SchedulerPanelAppointmentCreateSerializer_get_display_name_def
      by (auto split: sum.splits option.splits if_splits)
  next
    case (Some pk)
    with m obtain b where b: "PrimaryKeyRelatedField (Booker_objects db) b_id pk = Inr b"
      unfolding manage_appointments_create_def
        SchedulerPanelAppointmentCreateSerializer_is_valid_def resolve_booker_def
      by (auto split: sum.splits)
    from b have f: "first (filter (\<lambda>y. b_id y = pk) (Booker_objects db)) = Some b"
      by (rule PrimaryKeyRelatedField_first)
    from b have mem: "b \<in> set (Booker_objects db) \<and> b_id b = pk"
      by (rule PrimaryKeyRelatedField_member)
    from m Some b f mem have "r_display_name r = b_name b @ '' '' @ b_family b"
      unfolding manage_appointments_create_def
        SchedulerPanelAppointmentCreateSerializer_is_valid_def
        SchedulerPanelAppointmentCreateSerializer_validate_def resolve_booker_def
        Appointment_objects_create_def Let_def SchedulerPanelAppointmentCreateSerializer_data_def
        obj_booker_def SchedulerPanelAppointmentCreateSerializer_get_display_name_def
      by (auto split: sum.splits option.splits if_splits)
    with Some mem show ?thesis by auto
  qed
qed

lemma update_display_name:
  assumes "SchedulerPanelViewSet_manage_appointments db clk ru (action_update i u) = Inr (db', Updated r)"
  shows "\<exists>obj \<in> set (Appointment_objects db'). Some (a_id obj) = i
           \<and> r_display_name r
             = (case obj_booker db' obj of
                  Some b \<Rightarrow> b_name b @ '' '' @ b_family b
                | None \<Rightarrow> if a_booker_name obj \<noteq> [] then a_booker_name obj else ''Unnamed'')"
proof -
  from assms obtain s where s: "get_scheduler db ru = Inr s"
    by (auto simp add: SchedulerPanelViewSet_manage_appointments_def split: sum.splits)
  with assms have m: "manage_appointments_update db s i u = Inr (db', Updated r)"
    by (simp add: SchedulerPanelViewSet_manage_appointments_def)
  then obtain a where
    a: "get_object_or_404
          (filter (\<lambda>a. Some (a_id a) = i \<and> a_scheduler a = s_id s) (Appointment_objects db)) = Inr a"
    by (auto simp add: manage_appointments_update_def split: sum.splits)
  then have "filter (\<lambda>a. Some (a_id a) = i \<and> a_scheduler a = s_id s) (Appointment_objects db) = [a]"
    by (simp add: get_object_or_404_Inr)
  from filter_singleton_member [OF this]
  have mem: "a \<in> set (Appointment_objects db)" and id: "Some (a_id a) = i" by simp_all
  from m a obtain data where
    v: "SchedulerPanelAppointmentUpdateSerializer_is_valid db None a u = Inr data"
    by (auto simp add: manage_appointments_update_def split: sum.splits)
  let ?obj = "SchedulerPanelAppointmentUpdateSerializer_update a data"
  have oid: "a_id ?obj = a_id a"
    by (simp add: SchedulerPanelAppointmentUpdateSerializer_update_def)
  from m a v have db': "db' = db\<lparr>Appointment_objects :=
        map (\<lambda>x. if a_id x = a_id ?obj then ?obj else x) (Appointment_objects db)\<rparr>"
    and r: "r = SchedulerPanelAppointmentUpdateSerializer_data db' ?obj"
    by (auto simp add: manage_appointments_update_def Appointment_save_def Let_def
        split: sum.splits if_splits)
  from mem oid have "?obj \<in> set (Appointment_objects db')"
    unfolding db' by (auto simp add: image_iff intro!: bexI [of _ a])
  moreover have "r_display_name r
      = (case obj_booker db' ?obj of
           Some b \<Rightarrow> b_name b @ '' '' @ b_family b
         | None \<Rightarrow> if a_booker_name ?obj \<noteq> [] then a_booker_name ?obj else ''Unnamed'')"
    unfolding r SchedulerPanelAppointmentUpdateSerializer_data_def
      SchedulerPanelAppointmentUpdateSerializer_get_display_name_def
    by simp
  ultimately show ?thesis using id oid by (intro bexI [of _ ?obj]) simp_all
qed

text \<open>
  C7. For a caller with a scheduler profile, a create request on the scheduler panel is
  answered with MissingBookerIdentity exactly when the payload has no booker (the key is
  absent or null) and no non-empty \<^verbatim>\<open>booker_name\<close>; the same holds for an update
  request that names one of the scheduler's appointments. The display name of a created
  appointment is "name family" of the booker row the payload links, and the payload's
  \<^verbatim>\<open>booker_name\<close> when it links none; the display name of an updated appointment
  is "name family" of its linked booker, otherwise its \<^verbatim>\<open>booker_name\<close> when that is
  not empty, otherwise "Unnamed"; and this is how both serializers derive the name for
  any appointment.
\<close>

theorem C7_booker_identity_and_display_name:
  "(get_scheduler db ru = Inr s \<longrightarrow>
      ((SchedulerPanelViewSet_manage_appointments db clk ru (action_create d)
          = Inl [MissingBookerIdentity])
       \<longleftrightarrow> sc_booker d = None \<and> sc_booker_name d \<in> {None, Some []}))
   \<and> (get_scheduler db ru = Inr s
        \<and> get_object_or_404
             (filter (\<lambda>a. Some (a_id a) = i \<and> a_scheduler a = s_id s) (Appointment_objects db))
           = Inr a \<longrightarrow>
      ((SchedulerPanelViewSet_manage_appointments db clk ru (action_update i u)
          = Inl [MissingBookerIdentity])
       \<longleftrightarrow> su_booker u \<in> {None, Some None} \<and> su_booker_name u \<in> {None, Some []}))
   \<and> (SchedulerPanelViewSet_manage_appointments db clk ru (action_create d) = Inr (db', Created r)
        \<longrightarrow> (case sc_booker d of
               Some pk \<Rightarrow> \<exists>b \<in> set (Booker_objects db). b_id b = pk
                            \<and> r_display_name r = b_name b @ '' '' @ b_family b
             | None \<Rightarrow> \<exists>n. sc_booker_name d = Some n \<and> n \<noteq> [] \<and> r_display_name r = n))
   \<and> (SchedulerPanelViewSet_manage_appointments db clk ru (action_update i u) = Inr (db', Updated r)
        \<longrightarrow> (\<exists>obj \<in> set (Appointment_objects db'). Some (a_id obj) = i
               \<and> r_display_name r
                 = (case obj_booker db' obj of
                      Some b \<Rightarrow> b_name b @ '' '' @ b_family b
                    | None \<Rightarrow> if a_booker_name obj \<noteq> [] then a_booker_name obj else ''Unnamed'')))
   \<and> SchedulerPanelAppointmentCreateSerializer_get_display_name (Some b) n
       = b_name b @ '' '' @ b_family b
   \<and> SchedulerPanelAppointmentCreateSerializer_get_display_name None n
       = (if n \<noteq> [] then n else ''Unnamed'')
   \<and> SchedulerPanelAppointmentUpdateSerializer_get_display_name (Some b) n
       = b_name b @ '' '' @ b_family b
   \<and> SchedulerPanelAppointmentUpdateSerializer_get_display_name None n
       = (if n \<noteq> [] then n else ''Unnamed'')"
  using create_missing_identity [of db ru s clk d] update_missing_identity [of db ru s i a clk u]
    create_display_name [of db clk ru d db' r] update_display_name [of db clk ru i u db' r]
  by (simp add: SchedulerPanelAppointmentCreateSerializer_get_display_name_def
      SchedulerPanelAppointmentUpdateSerializer_get_display_name_def)

theorem C7_booker_identity_and_display_name_witness:
  "get_scheduler db1 10 = Inr sara
   \<and> get_object_or_404
        (filter (\<lambda>a. Some (a_id a) = Some 1 \<and> a_scheduler a = s_id sara) (Appointment_objects db1))
      = Inr booked
   \<and> SchedulerPanelViewSet_manage_appointments db1 noon 10
        (action_create \<lparr>sc_date = (2025, 6, 10), sc_time = (8, 30, 0, 0), sc_booker = None,
                         sc_booker_name = Some [], sc_note = None\<rparr>)
      = Inl [MissingBookerIdentity]
   \<and> SchedulerPanelViewSet_manage_appointments db1 noon 10
        (action_update (Some 1) \<lparr>su_date = Some (2025, 6, 12), su_time = None, su_booker = None,
                                  su_booker_name = None, su_note = None\<rparr>)
      = Inl [MissingBookerIdentity]
   \<and> (case SchedulerPanelViewSet_manage_appointments db1 noon 10
              (action_create \<lparr>sc_date = (2025, 6, 10), sc_time = (8, 30, 0, 0), sc_booker = None,
                               sc_booker_name = Some ''Walk-in'', sc_note = None\<rparr>) of
         Inr (db', Created r) \<Rightarrow> r_display_name r | _ \<Rightarrow> [])
      = ''Walk-in''
   \<and> (case SchedulerPanelViewSet_manage_appointments db1 noon 10
              (action_create \<lparr>sc_date = (2025, 6, 10), sc_time = (8, 30, 0, 0), sc_booker = Some 1,
                               sc_booker_name = None, sc_note = None\<rparr>) of
         Inr (db', Created r) \<Rightarrow> r_display_name r | _ \<Rightarrow> [])
      = ''John Doe''"
proof -
  have s: "get_scheduler db1 10 = Inr sara"
    by (simp add: get_scheduler_def get_object_or_404_def example_defs)
  have a: "get_object_or_404
        (filter (\<lambda>a. Some (a_id a) = Some 1 \<and> a_scheduler a = s_id sara) (Appointment_objects db1))
      = Inr booked"
    by (simp add: get_object_or_404_def example_defs)
  note T = C7_booker_identity_and_display_name [where db = db1 and ru = 10 and s = sara
      and clk = noon and i = "Some 1" and a = booked
      and d = "\<lparr>sc_date = (2025, 6, 10), sc_time = (8, 30, 0, 0), sc_booker = None,
                sc_booker_name = Some [], sc_note = None\<rparr>"
      and u = "\<lparr>su_date = Some (2025, 6, 12), su_time = None, su_booker = None,
                su_booker_name = None, su_note = None\<rparr>"]
  from T s have c: "SchedulerPanelViewSet_manage_appointments db1 noon 10
        (action_create \<lparr>sc_date = (2025, 6, 10), sc_time = (8, 30, 0, 0), sc_booker = None,
                         sc_booker_name = Some [], sc_note = None\<rparr>)
      = Inl [MissingBookerIdentity]"
    by simp
  from T s a have u: "SchedulerPanelViewSet_manage_appointments db1 noon 10
        (action_update (Some 1) \<lparr>su_date = Some (2025, 6, 12), su_time = None, su_booker = None,
                                  su_booker_name = None, su_note = None\<rparr>)
      = Inl [MissingBookerIdentity]"
    by simp
  have w: "(case SchedulerPanelViewSet_manage_appointments db1 noon 10
              (action_create \<lparr>sc_date = (2025, 6, 10), sc_time = (8, 30, 0, 0), sc_booker = None,
                               sc_booker_name = Some ''Walk-in'', sc_note = None\<rparr>) of
         Inr (db', Created r) \<Rightarrow> r_display_name r | _ \<Rightarrow> [])
      = ''Walk-in''"
    by (simp add: SchedulerPanelViewSet_manage_appointments_def manage_appointments_create_def
        get_scheduler_def get_object_or_404_def SchedulerPanelAppointmentCreateSerializer_is_valid_def
        SchedulerPanelAppointmentCreateSerializer_validate_def resolve_booker_def
        Appointment_objects_create_def exists_def slot_filter_def slot_def Let_def
        SchedulerPanelAppointmentCreateSerializer_data_def obj_booker_def
        SchedulerPanelAppointmentCreateSerializer_get_display_name_def example_defs)
  have l: "(case SchedulerPanelViewSet_manage_appointments db1 noon 10
              (action_create \<lparr>sc_date = (2025, 6, 10), sc_time = (8, 30, 0, 0), sc_booker = Some 1,
                               sc_booker_name = None, sc_note = None\<rparr>) of
         Inr (db', Created r) \<Rightarrow> r_display_name r | _ \<Rightarrow> [])
      = ''John Doe''"
    by (simp add: SchedulerPanelViewSet_manage_appointments_def manage_appointments_create_def
        get_scheduler_def get_object_or_404_def SchedulerPanelAppointmentCreateSerializer_is_valid_def
        SchedulerPanelAppointmentCreateSerializer_validate_def resolve_booker_def
        PrimaryKeyRelatedField_def first_def
        Appointment_objects_create_def exists_def slot_filter_def slot_def Let_def
        SchedulerPanelAppointmentCreateSerializer_data_def obj_booker_def
        SchedulerPanelAppointmentCreateSerializer_get_display_name_def example_defs)
  from s a c u w l show ?thesis by (intro conjI)
qed

section \<open>C6: no booking in the past by a booker\<close>

lemma first_active_upcoming:
  "first (active_appointments db clk b) = Some a
   \<Longrightarrow> a \<in> set (Appointment_objects db) \<and> a_booker a = Some (b_id b) \<and> upcoming clk a"
proof -
  assume "first (active_appointments db clk b) = Some a"
  then have "a \<in> set (active_appointments db clk b)" by (rule first_in_set)
  then show ?thesis by (simp add: active_appointments_set)
qed





lemma update_past_rejected:
  assumes "get_booker db ru = Inr b" and "first (active_appointments db clk b) = Some a"
    and "data_get_date u (a_date a) < today clk
         \<or> (data_get_date u (a_date a) = today clk \<and> data_get_time u (a_time a) \<le> now_time clk)"
  shows "\<exists>es. BookerPanelViewSet_update_my_appointment db clk ru u = Inl es"
proof -
  from assms(2) have up: "upcoming clk a" by (simp add: first_active_upcoming)
  show ?thesis
  proof (cases "BookerPanelUpdateAppointmentProfileSerializer_is_valid db clk a u")
    case (Inl es)
    with assms(1,2) show ?thesis
      by (simp add: BookerPanelViewSet_update_my_appointment_def)
  next
    case (Inr data)
    then have dates: "\<forall>d. upd_date u = Some d \<longrightarrow> \<not> d < today clk"
      and v: "BookerPanelUpdateAppointmentProfileSerializer_validate db clk a u = Inr data"
      unfolding BookerPanelUpdateAppointmentProfileSerializer_is_valid_def
        BookerPanelUpdateAppointmentProfileSerializer_validate_date_def Let_def
      by (auto split: option.splits if_splits simp add: errors_of_def)
    from dates up have "\<not> data_get_date u (a_date a) < today clk"
      by (auto simp add: data_get_date_def upcoming_def split: option.splits)
    with assms(3) have "data_get_date u (a_date a) = today clk
        \<and> data_get_time u (a_time a) \<le> now_time clk"
      by blast
    with v have False
      by (simp add: BookerPanelUpdateAppointmentProfileSerializer_validate_def Let_def)
    then show ?thesis ..
  qed
qed







section \<open>C2: slot uniqueness on update\<close>

lemma ModelSerializer_update_slot [simp]:
  "a_date (ModelSerializer_update a u) = data_get_date u (a_date a)"
  "a_time (ModelSerializer_update a u) = data_get_time u (a_time a)"
  by (simp_all add: ModelSerializer_update_def data_get_date_def data_get_time_def)

lemma exists_other_in_slot:
  "exists (filter P (slot_filter db s d t))
   \<longleftrightarrow> (\<exists>x \<in> set (Appointment_objects db). P x \<and> slot x = (s, d, t))"
  unfolding exists_def slot_filter_def by (auto simp add: filter_empty_conv)

lemma Appointment_save_cases:
  "Appointment_save db a
   = (if \<exists>x \<in> set (Appointment_objects db). a_id x \<noteq> a_id a
            \<and> slot x = (a_scheduler a, a_date a, a_time a)
      then Inl [IntegrityError]
      else Inr (db\<lparr>Appointment_objects :=
                     map (\<lambda>x. if a_id x = a_id a then a else x) (Appointment_objects db)\<rparr>))"
  unfolding Appointment_save_def exists_other_in_slot by simp

lemma admin_put_integrity:
  assumes "get_object_or_404 (filter (\<lambda>x. a_id x = pk) (Appointment_objects db)) = Inr a"
  shows "AdminPanelViewSet_appointment_detail_put db pk u
         = (if \<exists>x \<in> set (Appointment_objects db). a_id x \<noteq> a_id a
                 \<and> slot x = (a_scheduler a, data_get_date u (a_date a), data_get_time u (a_time a))
            then Inl [IntegrityError]
            else Inr (db\<lparr>Appointment_objects :=
                           map (\<lambda>x. if a_id x = a_id a then ModelSerializer_update a u else x)
                             (Appointment_objects db)\<rparr>,
                      ModelSerializer_update a u))"
  using assms
  by (simp add: AdminPanelViewSet_appointment_detail_put_def Appointment_save_cases Let_def)

lemma admin_put_no_slot_error:
  "AdminPanelViewSet_appointment_detail_put db pk u = Inl es \<Longrightarrow> SlotAlreadyBooked \<notin> set es"
  unfolding AdminPanelViewSet_appointment_detail_put_def get_object_or_404_def
    Appointment_save_def Let_def
  by (auto split: sum.splits list.splits if_splits)

lemma booker_update_validated:
  assumes "get_booker db ru = Inr b" and "first (active_appointments db clk b) = Some a"
    and "\<forall>d. upd_date u = Some d \<longrightarrow> \<not> d < today clk"
    and "\<forall>t. upd_time u = Some t \<longrightarrow> time 8 0 \<le> t \<and> t < time 20 0"
    and "\<not> (data_get_date u (a_date a) = today clk \<and> data_get_time u (a_time a) \<le> now_time clk)"
  shows "BookerPanelViewSet_update_my_appointment db clk ru u
         = (if \<exists>x \<in> set (Appointment_objects db). a_id x \<noteq> a_id a
                 \<and> slot x = (a_scheduler a, data_get_date u (a_date a), data_get_time u (a_time a))
            then Inl [SlotAlreadyBooked]
            else Inr (db\<lparr>Appointment_objects :=
                           map (\<lambda>x. if a_id x = a_id a then ModelSerializer_update a u else x)
                             (Appointment_objects db)\<rparr>,
                      ModelSerializer_update a u))"
proof -
  from assms(3) have date_errors: "(case upd_date u of None \<Rightarrow> []
            | Some d \<Rightarrow> errors_of (BookerPanelUpdateAppointmentProfileSerializer_validate_date clk d)) = []"
    by (auto simp add: BookerPanelUpdateAppointmentProfileSerializer_validate_date_def errors_of_def
        split: option.splits)
  from assms(4) have time_errors: "(case upd_time u of None \<Rightarrow> []
            | Some t \<Rightarrow> errors_of (BookerPanelUpdateAppointmentProfileSerializer_validate_time t)) = []"
    by (auto simp add: BookerPanelUpdateAppointmentProfileSerializer_validate_time_def errors_of_def
        not_le not_less split: option.splits)
  from assms(1,2,5) date_errors time_errors show ?thesis
    by (auto simp add: BookerPanelViewSet_update_my_appointment_def
        BookerPanelUpdateAppointmentProfileSerializer_is_valid_def
        BookerPanelUpdateAppointmentProfileSerializer_validate_def
        Appointment_save_cases exists_other_in_slot Let_def)
qed

lemma booker_update_conflict_rejected:
  assumes "get_booker db ru = Inr b" and "first (active_appointments db clk b) = Some a"
    and "\<exists>x \<in> set (Appointment_objects db). a_id x \<noteq> a_id a
           \<and> slot x = (a_scheduler a, data_get_date u (a_date a), data_get_time u (a_time a))"
  shows "\<exists>es. BookerPanelViewSet_update_my_appointment db clk ru u = Inl es"
  using assms
  by (auto simp add: BookerPanelViewSet_update_my_appointment_def
      BookerPanelUpdateAppointmentProfileSerializer_is_valid_def
      BookerPanelUpdateAppointmentProfileSerializer_validate_def
      Appointment_save_cases exists_other_in_slot Let_def split: sum.splits if_splits)

lemma booker_update_no_conflict:
  assumes "get_booker db ru = Inr b" and "first (active_appointments db clk b) = Some a"
    and "\<not> (\<exists>x \<in> set (Appointment_objects db). a_id x \<noteq> a_id a
           \<and> slot x = (a_scheduler a, data_get_date u (a_date a), data_get_time u (a_time a)))"
    and "BookerPanelViewSet_update_my_appointment db clk ru u = Inl es"
  shows "SlotAlreadyBooked \<notin> set es \<and> IntegrityError \<notin> set es"
  using assms
  by (auto simp add: BookerPanelViewSet_update_my_appointment_def
      BookerPanelUpdateAppointmentProfileSerializer_is_valid_def
      BookerPanelUpdateAppointmentProfileSerializer_validate_def
      BookerPanelUpdateAppointmentProfileSerializer_validate_date_def
      BookerPanelUpdateAppointmentProfileSerializer_validate_time_def errors_of_def
      Appointment_save_cases exists_other_in_slot Let_def split: sum.splits if_splits option.splits)

text \<open>
  C2, as the claim states it, fails: the admin moves the walk-in of \<open>db2\<close> (primary key 2)
  onto the slot that John's appointment holds. No serializer check answers
  SlotAlreadyBooked; the update reaches the store, whose unique constraint refuses it.
\<close>

theorem C2_admin_update_is_not_checked:
  "slot booked = (1, (2025, 6, 10), (9, 0, 0, 0)) \<and> a_id booked = 1
   \<and> AdminPanelViewSet_appointment_detail_put db2 2
        \<lparr>upd_date = Some (2025, 6, 10), upd_time = Some (9, 0, 0, 0), upd_note = None\<rparr>
      = Inl [IntegrityError]"
  by (simp add: AdminPanelViewSet_appointment_detail_put_def get_object_or_404_def
      ModelSerializer_update_def Appointment_save_def exists_def slot_filter_def slot_def
      Let_def example_defs)

text \<open>
  C2, amended. When a booker updates the booker's upcoming appointment, the candidate
  slot is the appointment's scheduler with the payload's date and time (the stored ones
  where the payload has none), and it is compared with every appointment of another
  primary key. If another appointment holds the candidate slot the update is always
  rejected; if none does, the update is answered neither with SlotAlreadyBooked nor with
  the store's IntegrityError; and when the date and time checks pass, the answer is
  SlotAlreadyBooked exactly when another appointment holds the candidate slot, and the
  update succeeds otherwise. An update by the admin is not checked by any serializer: it
  is never answered with SlotAlreadyBooked; it is refused by the store's unique
  constraint, with IntegrityError, exactly when another appointment holds the candidate
  slot, and succeeds otherwise.
\<close>

theorem C2_update_slot_uniqueness:
  "(get_booker db ru = Inr b \<and> first (active_appointments db clk b) = Some a \<longrightarrow>
      ((\<exists>x \<in> set (Appointment_objects db). a_id x \<noteq> a_id a
           \<and> slot x = (a_scheduler a, data_get_date u (a_date a), data_get_time u (a_time a)))
         \<longrightarrow> (\<exists>es. BookerPanelViewSet_update_my_appointment db clk ru u = Inl es))
      \<and> (\<not> (\<exists>x \<in> set (Appointment_objects db). a_id x \<noteq> a_id a
           \<and> slot x = (a_scheduler a, data_get_date u (a_date a), data_get_time u (a_time a)))
         \<longrightarrow> (\<forall>es. BookerPanelViewSet_update_my_appointment db clk ru u = Inl es
                \<longrightarrow> SlotAlreadyBooked \<notin> set es \<and> IntegrityError \<notin> set es))
      \<and> ((\<forall>d. upd_date u = Some d \<longrightarrow> \<not> d < today clk)
          \<and> (\<forall>t. upd_time u = Some t \<longrightarrow> time 8 0 \<le> t \<and> t < time 20 0)
          \<and> \<not> (data_get_date u (a_date a) = today clk
                \<and> data_get_time u (a_time a) \<le> now_time clk)
         \<longrightarrow> ((BookerPanelViewSet_update_my_appointment db clk ru u = Inl [SlotAlreadyBooked])
               \<longleftrightarrow> (\<exists>x \<in> set (Appointment_objects db). a_id x \<noteq> a_id a
                      \<and> slot x = (a_scheduler a, data_get_date u (a_date a),
                                  data_get_time u (a_time a))))
             \<and> (\<not> (\<exists>x \<in> set (Appointment_objects db). a_id x \<noteq> a_id a
                      \<and> slot x = (a_scheduler a, data_get_date u (a_date a),
                                  data_get_time u (a_time a)))
                \<longrightarrow> (\<exists>r. BookerPanelViewSet_update_my_appointment db clk ru u = Inr r))))
   \<and> (get_object_or_404 (filter (\<lambda>x. a_id x = pk) (Appointment_objects db)) = Inr a' \<longrightarrow>
        ((AdminPanelViewSet_appointment_detail_put db pk u' = Inl [IntegrityError])
           \<longleftrightarrow> (\<exists>x \<in> set (Appointment_objects db). a_id x \<noteq> a_id a'
                  \<and> slot x = (a_scheduler a', data_get_date u' (a_date a'),
                              data_get_time u' (a_time a'))))
        \<and> (\<not> (\<exists>x \<in> set (Appointment_objects db). a_id x \<noteq> a_id a'
                  \<and> slot x = (a_scheduler a', data_get_date u' (a_date a'),
                              data_get_time u' (a_time a')))
            \<longrightarrow> (\<exists>r. AdminPanelViewSet_appointment_detail_put db pk u' = Inr r)))
   \<and> (\<forall>es. AdminPanelViewSet_appointment_detail_put db pk u' = Inl es
         \<longrightarrow> SlotAlreadyBooked \<notin> set es)"
proof (intro conjI impI allI)
  assume h: "get_booker db ru = Inr b \<and> first (active_appointments db clk b) = Some a"
    and c: "\<exists>x \<in> set (Appointment_objects db). a_id x \<noteq> a_id a
           \<and> slot x = (a_scheduler a, data_get_date u (a_date a), data_get_time u (a_time a))"
  then show "\<exists>es. BookerPanelViewSet_update_my_appointment db clk ru u = Inl es"
    using booker_update_conflict_rejected [of db ru b clk a u] by blast
next
  fix es
  assume "get_booker db ru = Inr b \<and> first (active_appointments db clk b) = Some a"
    and "\<not> (\<exists>x \<in> set (Appointment_objects db). a_id x \<noteq> a_id a
           \<and> slot x = (a_scheduler a, data_get_date u (a_date a), data_get_time u (a_time a)))"
    and "BookerPanelViewSet_update_my_appointment db clk ru u = Inl es"
  then have "SlotAlreadyBooked \<notin> set es \<and> IntegrityError \<notin> set es"
    using booker_update_no_conflict [of db ru b clk a u es] by blast
  then show "SlotAlreadyBooked \<notin> set es" and "IntegrityError \<notin> set es" by simp_all
next
  assume h: "get_booker db ru = Inr b \<and> first (active_appointments db clk b) = Some a"
    and v: "(\<forall>d. upd_date u = Some d \<longrightarrow> \<not> d < today clk)
          \<and> (\<forall>t. upd_time u = Some t \<longrightarrow> time 8 0 \<le> t \<and> t < time 20 0)
          \<and> \<not> (data_get_date u (a_date a) = today clk
                \<and> data_get_time u (a_time a) \<le> now_time clk)"
  from h v have run: "BookerPanelViewSet_update_my_appointment db clk ru u
         = (if \<exists>x \<in> set (Appointment_objects db). a_id x \<noteq> a_id a
                 \<and> slot x = (a_scheduler a, data_get_date u (a_date a), data_get_time u (a_time a))
            then Inl [SlotAlreadyBooked]
            else Inr (db\<lparr>Appointment_objects :=
                           map (\<lambda>x. if a_id x = a_id a then ModelSerializer_update a u else x)
                             (Appointment_objects db)\<rparr>,
                      ModelSerializer_update a u))"
    by (intro booker_update_validated) blast+
  show "(BookerPanelViewSet_update_my_appointment db clk ru u = Inl [SlotAlreadyBooked])
        \<longleftrightarrow> (\<exists>x \<in> set (Appointment_objects db). a_id x \<noteq> a_id a
               \<and> slot x = (a_scheduler a, data_get_date u (a_date a), data_get_time u (a_time a)))"
    unfolding run by simp
  assume "\<not> (\<exists>x \<in> set (Appointment_objects db). a_id x \<noteq> a_id a
               \<and> slot x = (a_scheduler a, data_get_date u (a_date a), data_get_time u (a_time a)))"
  then show "\<exists>r. BookerPanelViewSet_update_my_appointment db clk ru u = Inr r"
    unfolding run by simp
next
  assume g: "get_object_or_404 (filter (\<lambda>x. a_id x = pk) (Appointment_objects db)) = Inr a'"
  show "(AdminPanelViewSet_appointment_detail_put db pk u' = Inl [IntegrityError])
        \<longleftrightarrow> (\<exists>x \<in> set (Appointment_objects db). a_id x \<noteq> a_id a'
               \<and> slot x = (a_scheduler a', data_get_date u' (a_date a'),
                           data_get_time u' (a_time a')))"
    unfolding admin_put_integrity [OF g] by simp
  assume "\<not> (\<exists>x \<in> set (Appointment_objects db). a_id x \<noteq> a_id a'
               \<and> slot x = (a_scheduler a', data_get_date u' (a_date a'),
                           data_get_time u' (a_time a')))"
  then show "\<exists>r. AdminPanelViewSet_appointment_detail_put db pk u' = Inr r"
    unfolding admin_put_integrity [OF g] by simp
next
  fix es
  assume "AdminPanelViewSet_appointment_detail_put db pk u' = Inl es"
  then show "SlotAlreadyBooked \<notin> set es" by (rule admin_put_no_slot_error)
qed

theorem C2_update_slot_uniqueness_witness:
  "get_booker db2 11 = Inr john
   \<and> first (active_appointments db2 morning john) = Some booked
   \<and> later \<in> set (Appointment_objects db2) \<and> a_id later \<noteq> a_id booked
   \<and> slot later = (a_scheduler booked, (2025, 6, 9), (10, 0, 0, 0))
   \<and> BookerPanelViewSet_update_my_appointment db2 morning 11
        \<lparr>upd_date = Some (2025, 6, 9), upd_time = Some (10, 0, 0, 0), upd_note = None\<rparr>
      = Inl [SlotAlreadyBooked]
   \<and> get_object_or_404 (filter (\<lambda>x. a_id x = 1) (Appointment_objects db2)) = Inr booked
   \<and> AdminPanelViewSet_appointment_detail_put db2 1
        \<lparr>upd_date = Some (2025, 6, 9), upd_time = Some (10, 0, 0, 0), upd_note = None\<rparr>
      = Inl [IntegrityError]"
proof -
  let ?u = "\<lparr>upd_date = Some (2025, 6, 9), upd_time = Some (10, 0, 0, 0), upd_note = None\<rparr>"
  have b: "get_booker db2 11 = Inr john"
    by (simp add: get_booker_def get_object_or_404_def example_defs)
  have a: "first (active_appointments db2 morning john) = Some booked"
    by (simp add: active_appointments_def Meta_ordering_def upcoming_def first_def example_defs)
  have l: "later \<in> set (Appointment_objects db2)" "a_id later \<noteq> a_id booked"
    "slot later = (a_scheduler booked, (2025, 6, 9), (10, 0, 0, 0))"
    by (simp_all add: slot_def example_defs)
  have g: "get_object_or_404 (filter (\<lambda>x. a_id x = 1) (Appointment_objects db2)) = Inr booked"
    by (simp add: get_object_or_404_def example_defs)
  have cand: "data_get_date ?u (a_date booked) = (2025, 6, 9)"
    "data_get_time ?u (a_time booked) = (10, 0, 0, 0)"
    by (simp_all add: data_get_date_def data_get_time_def)
  from l cand have c: "\<exists>x \<in> set (Appointment_objects db2). a_id x \<noteq> a_id booked
      \<and> slot x = (a_scheduler booked, data_get_date ?u (a_date booked),
                  data_get_time ?u (a_time booked))"
    by (intro bexI [of _ later]) simp_all
  have v: "(\<forall>d. upd_date ?u = Some d \<longrightarrow> \<not> d < today morning)
      \<and> (\<forall>t. upd_time ?u = Some t \<longrightarrow> time 8 0 \<le> t \<and> t < time 20 0)
      \<and> \<not> (data_get_date ?u (a_date booked) = today morning
            \<and> data_get_time ?u (a_time booked) \<le> now_time morning)"
    by (simp add: data_get_date_def data_get_time_def time_def example_defs)
  note T = C2_update_slot_uniqueness [where db = db2 and ru = 11 and b = john and clk = morning
      and a = booked and u = ?u and pk = 1 and a' = booked and u' = ?u]
  from T b a c v have r1: "BookerPanelViewSet_update_my_appointment db2 morning 11 ?u
      = Inl [SlotAlreadyBooked]"
    by blast
  from T g c have r2: "AdminPanelViewSet_appointment_detail_put db2 1 ?u = Inl [IntegrityError]"
    by blast
  from b a l r1 g r2 show ?thesis by (intro conjI)
qed

section \<open>C1: one appointment per slot\<close>



























end
